theory Spec2Isabelle
  imports Complex_Main
begin

section \<open>The Qdrant vector store adapter (src/vector\_store.py)\<close>

text \<open>
  The class \<open>QdrantVectorStore\<close> marshals requests to a remote vector database and maps
  its answers back. The database client and the uuid generator are collaborators the
  class does not implement: the client is a parameter (a record of operations on an
  arbitrary service state, each of which returns a value or raises), and \<open>uuid.uuid4\<close>
  is a parameter giving the n-th identifier drawn. Every method is a function on a
  world that holds the service state, the requests sent so far, the lines printed and
  the number of identifiers drawn; it returns \<open>Inl e\<close> when the Python method would
  raise \<open>e\<close> to its caller and \<open>Inr v\<close> when it returns \<open>v\<close>.
\<close>

subsection \<open>Python values, exceptions and strings\<close>

text \<open>
  Values that travel through metadata, payloads and filters. Floats are never computed
  with, only passed on, so a real number stands for each.
\<close>

datatype pyval = PNone | PBool bool | PStr string | PInt int | PFloat real

type_synonym pydict = "string \<rightharpoonup> pyval"

text \<open>
  Exceptions, all deriving from \<open>Exception\<close>: what the service client raises, carrying
  its message; the \<open>KeyError\<close> of a subscript on a missing key; the validation error
  with which a model class of the libraries (\<open>MatchValue\<close>, \<open>Document\<close>) refuses a
  field value, carrying the class name; and the \<open>AttributeError\<close> of reading an attribute
  an object does not have, carrying the object's type and the attribute. \<open>str_exn\<close> is
  Python's \<open>str(e)\<close>; of a validation error it gives the first line only.
\<close>

datatype exn =
    ServiceError string
  | KeyError string
  | ValidationError string
  | AttributeError string string

fun str_exn :: "exn \<Rightarrow> string" where
  "str_exn (ServiceError m) = m"
| "str_exn (KeyError k) = [CHR 0x27] @ k @ [CHR 0x27]"
| "str_exn (ValidationError cls) = ''1 validation error for '' @ cls"
| "str_exn (AttributeError ty attr) =
     [CHR 0x27] @ ty @ [CHR 0x27] @ '' object has no attribute '' @ [CHR 0x27] @ attr @ [CHR 0x27]"

text \<open>\<open>str.lower\<close> on ASCII text, and the substring test \<open>needle in hay\<close>.\<close>

definition lower_char :: "char \<Rightarrow> char" where
  "lower_char c =
     (case map_of (zip ''ABCDEFGHIJKLMNOPQRSTUVWXYZ'' ''abcdefghijklmnopqrstuvwxyz'') c of
        None \<Rightarrow> c
      | Some d \<Rightarrow> d)"

definition lower :: "string \<Rightarrow> string" where
  "lower s = map lower_char s"

fun starts_with :: "string \<Rightarrow> string \<Rightarrow> bool" where
  "starts_with [] hay = True"
| "starts_with (c # cs) [] = False"
| "starts_with (c # cs) (h # hs) = (c = h \<and> starts_with cs hs)"

fun contains :: "string \<Rightarrow> string \<Rightarrow> bool" where
  "contains needle [] = (needle = [])"
| "contains needle (h # hs) = (starts_with needle (h # hs) \<or> contains needle hs)"

text \<open>Decimal digits of a natural number, as an f-string prints \<open>len(points)\<close>.\<close>

fun str_nat :: "nat \<Rightarrow> string" where
  "str_nat n =
     (if n < 10 then [''0123456789'' ! n]
      else str_nat (n div 10) @ [''0123456789'' ! (n mod 10)])"

declare str_nat.simps [simp del]

text \<open>\<open>d.get(key, default)\<close>; \<open>d.get(key)\<close> is \<open>dict_get d key PNone\<close>.\<close>

definition dict_get :: "pydict \<Rightarrow> string \<Rightarrow> pyval \<Rightarrow> pyval" where
  "dict_get d key dflt = (case d key of None \<Rightarrow> dflt | Some v \<Rightarrow> v)"

subsection \<open>Data model\<close>

text \<open>
  A \<open>Document\<close> holds text and a metadata dictionary. Its constructor accepts only a
  string as \<open>page_content\<close>; \<open>new_document\<close> is the constructor called on an
  arbitrary value.
\<close>

record document =
  page_content :: string
  metadata :: pydict

definition new_document :: "pyval \<Rightarrow> pydict \<Rightarrow> exn + document" where
  "new_document content md =
     (case content of
        PStr text \<Rightarrow> Inr \<lparr>page_content = text, metadata = md\<rparr>
      | _ \<Rightarrow> Inl (ValidationError ''Document''))"

type_synonym embedding = "real list"

text \<open>
  The client library's point classes: every point has an id and a payload;
  \<open>PointStruct\<close> adds the vector, \<open>ScoredPoint\<close> the score; \<open>scroll\<close> returns plain
  records. The adapter leaves \<open>with_payload\<close> at its default in both requests, so every
  point that comes back carries a payload dictionary.
\<close>

record point_record =
  point_id :: pyval
  payload :: pydict

record point_struct = point_record +
  vector :: embedding

record scored_point = point_record +
  score :: real

datatype distance = COSINE
datatype payload_schema_type = KEYWORD

datatype match_value = MatchValue pyval
datatype field_condition = FieldCondition string match_value
datatype qfilter = Filter "field_condition list"

text \<open>
  \<open>MatchValue(value=v)\<close> accepts a bool, an int or a string and refuses every other
  value; \<open>new_match_value\<close> is the constructor called on an arbitrary value.
\<close>

fun valid_match_value :: "pyval \<Rightarrow> bool" where
  "valid_match_value (PBool b) = True"
| "valid_match_value (PInt i) = True"
| "valid_match_value (PStr t) = True"
| "valid_match_value PNone = False"
| "valid_match_value (PFloat x) = False"

definition new_match_value :: "pyval \<Rightarrow> exn + match_value" where
  "new_match_value v =
     (if valid_match_value v then Inr (MatchValue v)
      else Inl (ValidationError ''MatchValue''))"

record vector_params =
  size :: nat
  distance :: distance

text \<open>
  What \<open>get_collection\<close> returns. \<open>info.config.params.vectors\<close> is one
  \<open>VectorParams\<close>, a dictionary of named ones, or \<open>None\<close>; only the first has a
  \<open>size\<close>.
\<close>

datatype vectors_config = SingleVector vector_params | NamedVectors | NoVectors

record collection_info =
  vectors :: vectors_config
  points_count :: pyval

subsection \<open>The service client and the world\<close>

text \<open>One constructor per request of \<open>self.client\<close>, with the arguments the source passes.\<close>

datatype call =
    GetCollections
  | CreateCollection string vector_params
  | CreatePayloadIndex string string payload_schema_type
  | Upsert string "point_struct list"
  | QueryPoints string embedding "qfilter option" int
  | Scroll string qfilter nat
  | Delete string qfilter
  | GetCollection string

record 's client =
  get_collections :: "'s \<Rightarrow> (exn + string list) \<times> 's"
  create_collection :: "string \<Rightarrow> vector_params \<Rightarrow> 's \<Rightarrow> (exn + unit) \<times> 's"
  create_payload_index ::
    "string \<Rightarrow> string \<Rightarrow> payload_schema_type \<Rightarrow> 's \<Rightarrow> (exn + unit) \<times> 's"
  upsert :: "string \<Rightarrow> point_struct list \<Rightarrow> 's \<Rightarrow> (exn + unit) \<times> 's"
  query_points ::
    "string \<Rightarrow> embedding \<Rightarrow> qfilter option \<Rightarrow> int \<Rightarrow> 's \<Rightarrow> (exn + scored_point list) \<times> 's"
  scroll :: "string \<Rightarrow> qfilter \<Rightarrow> nat \<Rightarrow> 's \<Rightarrow> (exn + point_record list \<times> pyval) \<times> 's"
  delete :: "string \<Rightarrow> qfilter \<Rightarrow> 's \<Rightarrow> (exn + unit) \<times> 's"
  get_collection :: "string \<Rightarrow> 's \<Rightarrow> (exn + collection_info) \<times> 's"

record 's world =
  service :: 's
  calls :: "call list"
  stdout :: "string list"
  drawn :: nat

text \<open>Sending a request: it is recorded, and the service answers and moves on.\<close>

definition invoke ::
  "call \<Rightarrow> ('s \<Rightarrow> (exn + 'a) \<times> 's) \<Rightarrow> 's world \<Rightarrow> (exn + 'a) \<times> 's world" where
  "invoke c f w =
     (case f (service w) of
        (r, s') \<Rightarrow> (r, w\<lparr>service := s', calls := calls w @ [c]\<rparr>))"

definition print :: "string \<Rightarrow> 's world \<Rightarrow> 's world" where
  "print line w = w\<lparr>stdout := stdout w @ [line]\<rparr>"

text \<open>
  \<open>try: body except Exception as e: handler\<close>: the handler runs in the world the body
  left behind.
\<close>

definition try_except ::
  "('w \<Rightarrow> (exn + 'a) \<times> 'w) \<Rightarrow> (exn \<Rightarrow> 'w \<Rightarrow> (exn + 'a) \<times> 'w) \<Rightarrow> 'w \<Rightarrow> (exn + 'a) \<times> 'w" where
  "try_except body handler w =
     (case body w of
        (Inl e, w1) \<Rightarrow> handler e w1
      | (Inr v, w1) \<Rightarrow> (Inr v, w1))"

subsection \<open>Construction and setup\<close>

record adapter =
  collection_name :: string
  vector_size :: nat

text \<open>
  The two inner \<open>try\<close> blocks of \<open>_ensure_collection_exists\<close> differ only in the field
  name: the index is requested; on success a line is printed; on any exception the
  exception is printed unless its lower-cased text contains "already exists"; in both
  cases execution continues.
\<close>

definition ensure_payload_index ::
  "'s client \<Rightarrow> adapter \<Rightarrow> string \<Rightarrow> 's world \<Rightarrow> 's world" where
  "ensure_payload_index cl self field_name w =
     (case invoke (CreatePayloadIndex (collection_name self) field_name KEYWORD)
             (create_payload_index cl (collection_name self) field_name KEYWORD) w of
        (Inr u, w1) \<Rightarrow> print (''Created '' @ field_name @ '' index'') w1
      | (Inl e, w1) \<Rightarrow>
          if \<not> contains ''already exists'' (lower (str_exn e))
          then print (str_exn e) w1
          else w1)"

definition ensure_collection_exists_body ::
  "'s client \<Rightarrow> adapter \<Rightarrow> 's world \<Rightarrow> (exn + unit) \<times> 's world" where
  "ensure_collection_exists_body cl self w =
     (case invoke GetCollections (get_collections cl) w of
        (Inl e, w1) \<Rightarrow> (Inl e, w1)
      | (Inr collection_names, w1) \<Rightarrow>
          (case
             (if collection_name self \<notin> set collection_names then
                (case invoke
                        (CreateCollection (collection_name self)
                           \<lparr>size = vector_size self, distance = COSINE\<rparr>)
                        (create_collection cl (collection_name self)
                           \<lparr>size = vector_size self, distance = COSINE\<rparr>) w1 of
                   (Inl e, w2) \<Rightarrow> (Inl e, w2)
                 | (Inr u, w2) \<Rightarrow>
                     (Inr (), print (''Created collection: '' @ collection_name self) w2))
              else (Inr (), w1)) of
             (Inl e, w2) \<Rightarrow> (Inl e, w2)
           | (Inr u, w2) \<Rightarrow>
               (Inr (),
                ensure_payload_index cl self ''source_type''
                  (ensure_payload_index cl self ''session_id'' w2))))"

definition ensure_collection_exists ::
  "'s client \<Rightarrow> adapter \<Rightarrow> 's world \<Rightarrow> (exn + unit) \<times> 's world" where
  "ensure_collection_exists cl self =
     try_except (ensure_collection_exists_body cl self)
       (\<lambda>e w. (Inl e, print (''Error ensuring collection exists: '' @ str_exn e) w))"

text \<open>
  \<open>__init__\<close>: the client is given; the collection name comes from the environment
  with its default, the vector size is the constant 768, and setup runs. If setup
  raises, no adapter is constructed.
\<close>

definition getenv :: "(string \<rightharpoonup> string) \<Rightarrow> string \<Rightarrow> string \<Rightarrow> string" where
  "getenv environ key dflt = (case environ key of None \<Rightarrow> dflt | Some v \<Rightarrow> v)"

definition init ::
  "'s client \<Rightarrow> (string \<rightharpoonup> string) \<Rightarrow> 's world \<Rightarrow> (exn + adapter) \<times> 's world" where
  "init cl environ w =
     (let self = \<lparr>collection_name = getenv environ ''COLLECTION_NAME'' ''rag_documents'',
                  vector_size = 768\<rparr>
      in case ensure_collection_exists cl self w of
           (Inl e, w1) \<Rightarrow> (Inl e, w1)
         | (Inr u, w1) \<Rightarrow> (Inr self, w1))"

subsection \<open>add\_documents\<close>

text \<open>The \<open>PointStruct\<close> built for pair \<open>i\<close> with a freshly drawn identifier.\<close>

definition point_of :: "string \<Rightarrow> nat \<Rightarrow> document \<Rightarrow> embedding \<Rightarrow> point_struct" where
  "point_of uid i doc embedding =
     \<lparr>point_id = PStr uid,
      payload =
        [''content'' \<mapsto> PStr (page_content doc),
         ''source_type'' \<mapsto> dict_get (metadata doc) ''source_type'' PNone,
         ''source_name'' \<mapsto> dict_get (metadata doc) ''source_name'' PNone,
         ''session_id'' \<mapsto> dict_get (metadata doc) ''session_id'' PNone,
         ''chunk_id'' \<mapsto> dict_get (metadata doc) ''chunk_id'' (PInt (int i))],
      vector = embedding\<rparr>"

text \<open>
  The loop over \<open>enumerate(zip(documents, embeddings))\<close>: \<open>points\<close> is the list built
  so far and \<open>n\<close> the number of identifiers drawn so far.
\<close>

fun add_documents_loop ::
  "(nat \<Rightarrow> string) \<Rightarrow> (nat \<times> document \<times> embedding) list \<Rightarrow> point_struct list \<Rightarrow> nat
     \<Rightarrow> point_struct list \<times> nat" where
  "add_documents_loop uuid4 [] points n = (points, n)"
| "add_documents_loop uuid4 ((i, doc, embedding) # rest) points n =
     (if embedding = [] then add_documents_loop uuid4 rest points n
      else add_documents_loop uuid4 rest (points @ [point_of (uuid4 n) i doc embedding]) (Suc n))"

definition add_documents_body ::
  "'s client \<Rightarrow> adapter \<Rightarrow> (nat \<Rightarrow> string) \<Rightarrow> document list \<Rightarrow> embedding list \<Rightarrow> 's world
     \<Rightarrow> (exn + bool) \<times> 's world" where
  "add_documents_body cl self uuid4 documents embeddings w =
     (case add_documents_loop uuid4 (enumerate 0 (zip documents embeddings)) [] (drawn w) of
        (points, n) \<Rightarrow>
          if points = [] then (Inr False, print ''No valid points to upload'' (w\<lparr>drawn := n\<rparr>))
          else
            (case invoke (Upsert (collection_name self) points)
                    (upsert cl (collection_name self) points) (w\<lparr>drawn := n\<rparr>) of
               (Inl e, w1) \<Rightarrow> (Inl e, w1)
             | (Inr u, w1) \<Rightarrow>
                 (Inr True,
                  print (''Successfully added '' @ str_nat (length points)
                         @ '' documents to vector store'') w1)))"

definition add_documents ::
  "'s client \<Rightarrow> adapter \<Rightarrow> (nat \<Rightarrow> string) \<Rightarrow> document list \<Rightarrow> embedding list \<Rightarrow> 's world
     \<Rightarrow> (exn + bool) \<times> 's world" where
  "add_documents cl self uuid4 documents embeddings =
     try_except (add_documents_body cl self uuid4 documents embeddings)
       (\<lambda>e w. (Inr False, print (''Error adding documents: '' @ str_exn e) w))"

subsection \<open>similarity\_search\<close>

text \<open>
  The filter dictionary is an association list in the order \<open>items()\<close> yields it;
  \<open>None\<close> and the empty dictionary are both falsy and give no filter. The loop over
  the items builds one condition per item and leaves with the validation error of the
  first value \<open>MatchValue\<close> refuses.
\<close>

fun conditions_loop ::
  "(string \<times> pyval) list \<Rightarrow> field_condition list \<Rightarrow> exn + field_condition list" where
  "conditions_loop [] conditions = Inr conditions"
| "conditions_loop ((key, value) # rest) conditions =
     (case new_match_value value of
        Inl e \<Rightarrow> Inl e
      | Inr m \<Rightarrow> conditions_loop rest (conditions @ [FieldCondition key m]))"

definition query_filter_of :: "(string \<times> pyval) list option \<Rightarrow> exn + qfilter option" where
  "query_filter_of filter_dict =
     (case filter_dict of
        None \<Rightarrow> Inr None
      | Some items \<Rightarrow>
          if items = [] then Inr None
          else
            (case conditions_loop items [] of
               Inl e \<Rightarrow> Inl e
             | Inr conditions \<Rightarrow> Inr (Some (Filter conditions))))"

text \<open>
  The \<open>Document\<close> built for one result: \<open>result.payload["content"]\<close> raises
  \<open>KeyError\<close> when the key is missing, and the constructor refuses a content that is
  not a string.
\<close>

definition document_of :: "scored_point \<Rightarrow> exn + document" where
  "document_of result =
     (case payload result ''content'' of
        None \<Rightarrow> Inl (KeyError ''content'')
      | Some content \<Rightarrow>
          new_document content
            [''source_type'' \<mapsto> dict_get (payload result) ''source_type'' PNone,
             ''source_name'' \<mapsto> dict_get (payload result) ''source_name'' PNone,
             ''session_id'' \<mapsto> dict_get (payload result) ''session_id'' PNone,
             ''chunk_id'' \<mapsto> dict_get (payload result) ''chunk_id'' PNone,
             ''score'' \<mapsto> PFloat (score result)])"

text \<open>The result-mapping loop; an exception leaves it.\<close>

fun similarity_search_loop :: "scored_point list \<Rightarrow> document list \<Rightarrow> exn + document list" where
  "similarity_search_loop [] documents = Inr documents"
| "similarity_search_loop (result # rest) documents =
     (case document_of result of
        Inl e \<Rightarrow> Inl e
      | Inr d \<Rightarrow> similarity_search_loop rest (documents @ [d]))"

definition similarity_search_body ::
  "'s client \<Rightarrow> adapter \<Rightarrow> embedding \<Rightarrow> int \<Rightarrow> (string \<times> pyval) list option \<Rightarrow> 's world
     \<Rightarrow> (exn + document list) \<times> 's world" where
  "similarity_search_body cl self query_embedding k filter_dict w =
     (if query_embedding = [] then (Inr [], w)
      else
        (case query_filter_of filter_dict of
           Inl e \<Rightarrow> (Inl e, w)
         | Inr query_filter \<Rightarrow>
             (case invoke
                     (QueryPoints (collection_name self) query_embedding query_filter k)
                     (query_points cl (collection_name self) query_embedding query_filter k) w of
                (Inl e, w1) \<Rightarrow> (Inl e, w1)
              | (Inr search_results, w1) \<Rightarrow>
                  (case similarity_search_loop search_results [] of
                     Inl e \<Rightarrow> (Inl e, w1)
                   | Inr documents \<Rightarrow> (Inr documents, w1)))))"

definition similarity_search ::
  "'s client \<Rightarrow> adapter \<Rightarrow> embedding \<Rightarrow> int \<Rightarrow> (string \<times> pyval) list option \<Rightarrow> 's world
     \<Rightarrow> (exn + document list) \<times> 's world" where
  "similarity_search cl self query_embedding k filter_dict =
     try_except (similarity_search_body cl self query_embedding k filter_dict)
       (\<lambda>e w. (Inr [], print (''Error performing similarity search: '' @ str_exn e) w))"

subsection \<open>get\_documents\_by\_session, delete\_by\_session, get\_collection\_info\<close>

definition session_filter :: "string \<Rightarrow> qfilter" where
  "session_filter session_id =
     Filter [FieldCondition ''session_id'' (MatchValue (PStr session_id))]"

definition doc_record_of :: "point_record \<Rightarrow> pydict" where
  "doc_record_of p =
     [''id'' \<mapsto> point_id p,
      ''content'' \<mapsto> dict_get (payload p) ''content'' PNone,
      ''source_type'' \<mapsto> dict_get (payload p) ''source_type'' PNone,
      ''source_name'' \<mapsto> dict_get (payload p) ''source_name'' PNone,
      ''chunk_id'' \<mapsto> dict_get (payload p) ''chunk_id'' PNone]"

fun get_documents_loop :: "point_record list \<Rightarrow> pydict list \<Rightarrow> pydict list" where
  "get_documents_loop [] docs = docs"
| "get_documents_loop (p # rest) docs = get_documents_loop rest (docs @ [doc_record_of p])"

definition get_documents_by_session_body ::
  "'s client \<Rightarrow> adapter \<Rightarrow> string \<Rightarrow> 's world \<Rightarrow> (exn + pydict list) \<times> 's world" where
  "get_documents_by_session_body cl self session_id w =
     (case invoke (Scroll (collection_name self) (session_filter session_id) 1000)
             (scroll cl (collection_name self) (session_filter session_id) 1000) w of
        (Inl e, w1) \<Rightarrow> (Inl e, w1)
      | (Inr (points, next_offset), w1) \<Rightarrow> (Inr (get_documents_loop points []), w1))"

definition get_documents_by_session ::
  "'s client \<Rightarrow> adapter \<Rightarrow> string \<Rightarrow> 's world \<Rightarrow> (exn + pydict list) \<times> 's world" where
  "get_documents_by_session cl self session_id =
     try_except (get_documents_by_session_body cl self session_id)
       (\<lambda>e w. (Inr [], print (''Error getting documents by session: '' @ str_exn e) w))"





subsection \<open>Notions used to state the properties\<close>

text \<open>
  The positions of the pairs that \<open>add_documents\<close> keeps: those below both lengths
  whose embedding is not empty. \<open>points_built\<close> names the points built for them, the
  k-th with the k-th identifier drawn.
\<close>

definition nonempty_pair :: "nat \<times> document \<times> embedding \<Rightarrow> bool" where
  "nonempty_pair x = (case x of (i, doc, e) \<Rightarrow> e \<noteq> [])"

definition valid_positions :: "document list \<Rightarrow> embedding list \<Rightarrow> nat list" where
  "valid_positions documents embeddings =
     filter (\<lambda>i. embeddings ! i \<noteq> []) [0..<min (length documents) (length embeddings)]"

definition points_built ::
  "(nat \<Rightarrow> string) \<Rightarrow> nat \<Rightarrow> document list \<Rightarrow> embedding list \<Rightarrow> point_struct list" where
  "points_built uuid4 n ds es =
     map2 (\<lambda>m i. point_of (uuid4 m) i (ds ! i) (es ! i))
       [n..<n + length (valid_positions ds es)] (valid_positions ds es)"

text \<open>
  The meaning the service gives to a filter, as the spec describes it: the conditions
  under \<open>must\<close> are combined by AND, and a match-value condition on a key holds of a
  payload when the payload has exactly that value under the key. The adapter never
  evaluates a filter; these two notions state what is expected of the service.
\<close>

definition condition_holds :: "pydict \<Rightarrow> field_condition \<Rightarrow> bool" where
  "condition_holds pl c = (case c of FieldCondition key (MatchValue v) \<Rightarrow> pl key = Some v)"

definition satisfies :: "qfilter \<Rightarrow> pydict \<Rightarrow> bool" where
  "satisfies flt pl = (case flt of Filter must \<Rightarrow> list_all (condition_holds pl) must)"

text \<open>All points sent in the upsert requests of a request trace, in order.\<close>

fun upserted :: "call list \<Rightarrow> point_struct list" where
  "upserted [] = []"
| "upserted (Upsert name points # cs) = points @ upserted cs"
| "upserted (c # cs) = upserted cs"

subsection \<open>Service doubles and sample data\<close>

text \<open>
  Concrete collaborators on which the theorems are instantiated: a client that accepts
  every request and answers queries and scrolls with fixed lists; a client that raises on
  every request; clients that raise only when an index, or only when the collection, is
  created; a client of a service that has no collection yet; a client that applies the
  filter and the limit of a query or scroll to the points it holds; an identifier supply
  without repetition; and sample documents, search hits and stored records.
\<close>

definition stub_client :: "scored_point list \<Rightarrow> point_record list \<Rightarrow> unit client" where
  "stub_client results points =
     \<lparr>get_collections = (\<lambda>s. (Inr [''rag_documents''], s)),
      create_collection = (\<lambda>name params s. (Inr (), s)),
      create_payload_index = (\<lambda>name field schema s. (Inr (), s)),
      upsert = (\<lambda>name pts s. (Inr (), s)),
      query_points = (\<lambda>name q flt k s. (Inr results, s)),
      scroll = (\<lambda>name flt limit s. (Inr (points, PNone), s)),
      delete = (\<lambda>name flt s. (Inr (), s)),
      get_collection =
        (\<lambda>name s.
           (Inr \<lparr>vectors = SingleVector \<lparr>size = 768, distance = COSINE\<rparr>,
                 points_count = PInt 0\<rparr>, s))\<rparr>"

definition failing_client :: "string \<Rightarrow> unit client" where
  "failing_client msg =
     \<lparr>get_collections = (\<lambda>s. (Inl (ServiceError msg), s)),
      create_collection = (\<lambda>name params s. (Inl (ServiceError msg), s)),
      create_payload_index = (\<lambda>name field schema s. (Inl (ServiceError msg), s)),
      upsert = (\<lambda>name pts s. (Inl (ServiceError msg), s)),
      query_points = (\<lambda>name q flt k s. (Inl (ServiceError msg), s)),
      scroll = (\<lambda>name flt limit s. (Inl (ServiceError msg), s)),
      delete = (\<lambda>name flt s. (Inl (ServiceError msg), s)),
      get_collection = (\<lambda>name s. (Inl (ServiceError msg), s))\<rparr>"

definition index_failing_client :: "string \<Rightarrow> unit client" where
  "index_failing_client msg =
     (stub_client [] [])\<lparr>create_payload_index :=
        (\<lambda>name field schema s. (Inl (ServiceError msg), s))\<rparr>"

definition creation_failing_client :: "string \<Rightarrow> unit client" where
  "creation_failing_client msg =
     (stub_client [] [])\<lparr>get_collections := (\<lambda>s. (Inr [], s)),
        create_collection := (\<lambda>name params s. (Inl (ServiceError msg), s))\<rparr>"

definition filtering_client :: "scored_point list \<Rightarrow> point_record list \<Rightarrow> unit client" where
  "filtering_client hits records =
     (stub_client [] [])\<lparr>query_points :=
        (\<lambda>name q flt k s.
           (Inr (take (nat k)
                   (filter (\<lambda>p. case flt of None \<Rightarrow> True | Some f \<Rightarrow> satisfies f (payload p))
                      hits)), s)),
        scroll :=
        (\<lambda>name flt limit s.
           (Inr (take limit (filter (\<lambda>p. satisfies flt (payload p)) records), PNone), s))\<rparr>"

definition fresh_service_client :: "unit client" where
  "fresh_service_client = (stub_client [] [])\<lparr>get_collections := (\<lambda>s. (Inr [], s))\<rparr>"

definition test_uuid4 :: "nat \<Rightarrow> string" where
  "test_uuid4 n = replicate (Suc n) (CHR ''u'')"

definition world0 :: "unit world" where
  "world0 = \<lparr>service = (), calls = [], stdout = [], drawn = 0\<rparr>"

definition adapter0 :: adapter where
  "adapter0 = \<lparr>collection_name = ''rag_documents'', vector_size = 768\<rparr>"

definition doc_a :: document where
  "doc_a = \<lparr>page_content = ''alpha'',
            metadata = [''session_id'' \<mapsto> PStr ''s1'', ''chunk_id'' \<mapsto> PInt 7]\<rparr>"

definition doc_b :: document where
  "doc_b = \<lparr>page_content = ''beta'', metadata = [''session_id'' \<mapsto> PStr ''s1'']\<rparr>"

definition doc_c :: document where
  "doc_c = \<lparr>page_content = ''gamma'', metadata = [''source_type'' \<mapsto> PStr ''chat'']\<rparr>"

definition full_embedding :: embedding where
  "full_embedding = replicate 768 1"

definition hit_a :: scored_point where
  "hit_a = \<lparr>point_id = PStr ''p1'',
            payload = [''content'' \<mapsto> PStr ''alpha'', ''session_id'' \<mapsto> PStr ''s1''],
            score = 0.5\<rparr>"

definition hit_b :: scored_point where
  "hit_b = \<lparr>point_id = PStr ''p2'',
            payload = [''content'' \<mapsto> PStr ''beta'', ''session_id'' \<mapsto> PStr ''s1'',
                       ''chunk_id'' \<mapsto> PInt 4],
            score = 0.25\<rparr>"



definition hit_bad :: scored_point where
  "hit_bad = \<lparr>point_id = PStr ''p3'', payload = [''session_id'' \<mapsto> PStr ''s1''], score = 0.5\<rparr>"

definition rec_a :: point_record where
  "rec_a = \<lparr>point_id = PStr ''p1'',
            payload = [''content'' \<mapsto> PStr ''alpha'', ''session_id'' \<mapsto> PStr ''s1'']\<rparr>"

definition rec_b :: point_record where
  "rec_b = \<lparr>point_id = PInt 17, payload = [''session_id'' \<mapsto> PStr ''s1'']\<rparr>"

definition rec_other :: point_record where
  "rec_other = \<lparr>point_id = PInt 18,
                payload = [''content'' \<mapsto> PStr ''delta'', ''session_id'' \<mapsto> PStr ''s2'']\<rparr>"


section \<open>Properties\<close>

subsection \<open>Auxiliary facts\<close>

lemma try_except_Inr:
  "body w = (Inr v, w1) \<Longrightarrow> try_except body handler w = (Inr v, w1)"
  by (simp add: try_except_def)

lemma try_except_Inl:
  "body w = (Inl e, w1) \<Longrightarrow> try_except body handler w = handler e w1"
  by (simp add: try_except_def)

lemma add_documents_loop_eq:
  "add_documents_loop uuid4 xs points n =
     (points @ map2 (\<lambda>m (i, doc, e). point_of (uuid4 m) i doc e)
                 [n..<n + length (filter nonempty_pair xs)] (filter nonempty_pair xs),
      n + length (filter nonempty_pair xs))"
proof (induction xs arbitrary: points n)
  case Nil
  then show ?case by simp
next
  case (Cons x xs)
  obtain i doc e where x: "x = (i, doc, e)" by (cases x)
  show ?case
  proof (cases "e = []")
    case True
    then show ?thesis using Cons x by (simp add: nonempty_pair_def)
  next
    case False
    have u: "[n..<Suc (n + k)] = n # [Suc n..<Suc (n + k)]" for k
      by (simp add: upt_conv_Cons)
    from False show ?thesis using Cons x
      by (simp add: nonempty_pair_def u del: upt_Suc)
  qed
qed

lemma enumerate_zip_nth:
  "enumerate 0 (zip ds es) = map (\<lambda>i. (i, ds ! i, es ! i)) [0..<min (length ds) (length es)]"
  by (rule nth_equalityI) (simp_all add: nth_enumerate_eq)

lemma filter_enumerate_zip:
  "filter nonempty_pair (enumerate 0 (zip ds es)) =
     map (\<lambda>i. (i, ds ! i, es ! i)) (valid_positions ds es)"
  by (simp add: enumerate_zip_nth filter_map valid_positions_def o_def nonempty_pair_def)

lemma add_documents_loop_positions:
  "add_documents_loop uuid4 (enumerate 0 (zip ds es)) [] n =
     (map2 (\<lambda>m i. point_of (uuid4 m) i (ds ! i) (es ! i))
        [n..<n + length (valid_positions ds es)] (valid_positions ds es),
      n + length (valid_positions ds es))"
  by (simp add: add_documents_loop_eq filter_enumerate_zip zip_map2 split_def)

lemma print_simps:
  "calls (print l w) = calls w" "service (print l w) = service w"
  "drawn (print l w) = drawn w" "stdout (print l w) = stdout w @ [l]"
  by (simp_all add: print_def)

lemma invoke_fst: "fst (invoke c f w) = fst (f (service w))"
  by (simp add: invoke_def split: prod.splits)

lemma invoke_snd:
  "calls (snd (invoke c f w)) = calls w @ [c]"
  "service (snd (invoke c f w)) = snd (f (service w))"
  "drawn (snd (invoke c f w)) = drawn w"
  "stdout (snd (invoke c f w)) = stdout w"
  by (simp_all add: invoke_def split: prod.splits)

lemma length_points_built: "length (points_built uuid4 n ds es) = length (valid_positions ds es)"
  by (simp add: points_built_def)

lemma add_documents_body_eq:
  "add_documents_body cl self uuid4 ds es w =
     (if valid_positions ds es = [] then (Inr False, print ''No valid points to upload'' w)
      else
        (case invoke (Upsert (collection_name self) (points_built uuid4 (drawn w) ds es))
                (upsert cl (collection_name self) (points_built uuid4 (drawn w) ds es))
                (w\<lparr>drawn := drawn w + length (valid_positions ds es)\<rparr>) of
           (Inl e, w1) \<Rightarrow> (Inl e, w1)
         | (Inr u, w1) \<Rightarrow>
             (Inr True,
              print (''Successfully added '' @ str_nat (length (valid_positions ds es))
                     @ '' documents to vector store'') w1)))"
proof -
  have e: "points_built uuid4 (drawn w) ds es = [] \<longleftrightarrow> valid_positions ds es = []"
    using length_points_built [of uuid4 "drawn w" ds es] by (metis length_0_conv)
  have l: "length (points_built uuid4 (drawn w) ds es) = length (valid_positions ds es)"
    by (rule length_points_built)
  show ?thesis
    unfolding add_documents_body_def add_documents_loop_positions
    apply (simp add: points_built_def [symmetric] e)
    apply (simp add: l split: prod.splits sum.splits)
    done
qed

lemma add_documents_calls:
  "calls (snd (add_documents cl self uuid4 ds es w)) =
     calls w @ (if valid_positions ds es = [] then []
                else [Upsert (collection_name self) (points_built uuid4 (drawn w) ds es)])"
  by (simp add: add_documents_def try_except_def add_documents_body_eq print_simps invoke_def
      split: prod.splits sum.splits)

lemma add_documents_drawn:
  "drawn (snd (add_documents cl self uuid4 ds es w)) = drawn w + length (valid_positions ds es)"
  by (simp add: add_documents_def try_except_def add_documents_body_eq print_simps invoke_def
      split: prod.splits sum.splits)

lemma add_documents_no_raise:
  "\<not> isl (fst (add_documents cl self uuid4 ds es w))"
  by (simp add: add_documents_def try_except_def add_documents_body_eq print_simps invoke_def
      split: prod.splits sum.splits)

lemma add_documents_fst:
  "fst (add_documents cl self uuid4 ds es w) =
     Inr (valid_positions ds es \<noteq> []
          \<and> \<not> isl (fst (upsert cl (collection_name self) (points_built uuid4 (drawn w) ds es)
                          (service w))))"
proof (cases "valid_positions ds es = []")
  case True
  then show ?thesis
    by (simp add: add_documents_def try_except_def add_documents_body_eq)
next
  case False
  obtain r s' where u: "upsert cl (collection_name self)
      (points_built uuid4 (drawn w) ds es) (service w) = (r, s')"
    by (cases "upsert cl (collection_name self)
      (points_built uuid4 (drawn w) ds es) (service w)")
  with False show ?thesis
    by (cases r) (simp_all add: add_documents_def try_except_def add_documents_body_eq invoke_def)
qed

lemma add_documents_service:
  "service (snd (add_documents cl self uuid4 ds es w)) =
     (if valid_positions ds es = [] then service w
      else snd (upsert cl (collection_name self) (points_built uuid4 (drawn w) ds es)
                 (service w)))"
  by (simp add: add_documents_def try_except_def add_documents_body_eq print_simps invoke_def
      split: prod.splits sum.splits)

lemma length_valid_positions:
  "length (valid_positions ds es) =
     length (zip ds es) - length (filter (\<lambda>(doc, e). e = []) (zip ds es))"
proof -
  have "length (filter nonempty_pair (enumerate 0 (zip ds es))) =
          length (filter (\<lambda>(doc, e). e \<noteq> []) (zip ds es))"
  proof -
    have "filter (\<lambda>(doc, e). e \<noteq> []) (zip ds es) =
            filter (\<lambda>(doc, e). e \<noteq> []) (map snd (enumerate 0 (zip ds es)))"
      by simp
    also have "\<dots> = map snd (filter nonempty_pair (enumerate 0 (zip ds es)))"
    proof -
      have "nonempty_pair = (\<lambda>x. snd (snd x) \<noteq> [])"
        by (simp add: fun_eq_iff nonempty_pair_def split_def)
      then show ?thesis
        by (simp only: filter_map) (simp add: o_def split_def)
    qed
    finally show ?thesis by simp
  qed
  moreover have "length (filter (\<lambda>(doc, e). e \<noteq> []) (zip ds es)) +
      length (filter (\<lambda>(doc, e). e = []) (zip ds es)) = length (zip ds es)"
    using sum_length_filter_compl [of "\<lambda>(doc, e). e \<noteq> []" "zip ds es"]
    by (simp add: split_def)
  ultimately show ?thesis
    by (simp add: filter_enumerate_zip)
qed

lemma valid_positions_nth:
  assumes "j < length (valid_positions ds es)"
  shows "valid_positions ds es ! j < length ds"
    and "valid_positions ds es ! j < length es"
    and "es ! (valid_positions ds es ! j) \<noteq> []"
proof -
  have "valid_positions ds es ! j \<in> set (valid_positions ds es)"
    using assms by simp
  then show "valid_positions ds es ! j < length ds"
    and "valid_positions ds es ! j < length es"
    and "es ! (valid_positions ds es ! j) \<noteq> []"
    by (auto simp: valid_positions_def)
qed

lemma points_built_nth:
  "j < length (valid_positions ds es) \<Longrightarrow>
     points_built uuid4 n ds es ! j =
       point_of (uuid4 (n + j)) (valid_positions ds es ! j)
         (ds ! (valid_positions ds es ! j)) (es ! (valid_positions ds es ! j))"
  by (simp add: points_built_def)

lemma point_of_simps:
  "point_id (point_of uid i doc e) = PStr uid"
  "vector (point_of uid i doc e) = e"
  "dom (payload (point_of uid i doc e)) =
     {''content'', ''source_type'', ''source_name'', ''session_id'', ''chunk_id''}"
  "payload (point_of uid i doc e) ''content'' = Some (PStr (page_content doc))"
  "payload (point_of uid i doc e) ''source_type'' = Some (dict_get (metadata doc) ''source_type'' PNone)"
  "payload (point_of uid i doc e) ''source_name'' = Some (dict_get (metadata doc) ''source_name'' PNone)"
  "payload (point_of uid i doc e) ''session_id'' = Some (dict_get (metadata doc) ''session_id'' PNone)"
  "payload (point_of uid i doc e) ''chunk_id'' = Some (dict_get (metadata doc) ''chunk_id'' (PInt (int i)))"
  by (auto simp: point_of_def)

lemma points_built_ids:
  "map point_id (points_built uuid4 n ds es) =
     map (\<lambda>m. PStr (uuid4 m)) [n..<n + length (valid_positions ds es)]"
  by (rule nth_equalityI) (simp_all add: length_points_built points_built_nth point_of_simps)

lemma points_built_vectors:
  "map vector (points_built uuid4 n ds es) = map (\<lambda>i. es ! i) (valid_positions ds es)"
  by (rule nth_equalityI) (simp_all add: length_points_built points_built_nth point_of_simps)

lemma valid_positions_vectors:
  "map (\<lambda>i. es ! i) (valid_positions ds es) = filter (\<lambda>e. e \<noteq> []) (map snd (zip ds es))"
proof -
  have "map snd (zip ds es) = map (\<lambda>i. es ! i) [0..<min (length ds) (length es)]"
    by (rule nth_equalityI) simp_all
  then show ?thesis
    by (simp add: valid_positions_def filter_map o_def)
qed

lemma valid_positions_empty:
  "ds = [] \<or> (\<forall>e\<in>set es. e = []) \<Longrightarrow> valid_positions ds es = []"
  by (auto simp: valid_positions_def filter_empty_conv)

lemma add_documents_eq_take:
  "add_documents cl self uuid4 ds es w =
     add_documents cl self uuid4 (take (min (length ds) (length es)) ds)
       (take (min (length ds) (length es)) es) w"
proof -
  have "zip (take (min (length ds) (length es)) ds) (take (min (length ds) (length es)) es) =
          zip ds es"
    by (simp add: take_zip [symmetric])
  then have "add_documents_body cl self uuid4 ds es =
      add_documents_body cl self uuid4 (take (min (length ds) (length es)) ds)
        (take (min (length ds) (length es)) es)"
    by (intro ext) (simp only: add_documents_body_def)
  then show ?thesis
    by (simp only: add_documents_def)
qed

subsection \<open>add\_documents\<close>

text \<open>
  Claim C4. Of the N positionally paired (document, embedding) pairs, the M pairs with an
  empty embedding are skipped without an error, and exactly N - M points are built and sent in
  one upsert (none is sent when N - M = 0); the call returns \<open>True\<close> exactly when points
  were sent and the upsert did not raise, and the service is left as the upsert left it. Each
  point gets the next identifier drawn from \<open>uuid4\<close>; when \<open>uuid4\<close> never repeats, the
  identifiers are pairwise distinct and differ from every identifier drawn before. Each point
  carries the embedding of its pair and a payload with exactly the fields content,
  source\_type, source\_name, session\_id and chunk\_id: content is the document's text;
  source\_type, source\_name and session\_id are the metadata's values, \<open>None\<close> when the key
  is absent; chunk\_id is the metadata's value when the key is present and the pair's
  position in the input otherwise.
\<close>

theorem add_documents_builds_points:
  assumes "inj uuid4"
  shows "\<exists>points.
      calls (snd (add_documents cl self uuid4 documents embeddings w)) =
        calls w @ (if points = [] then [] else [Upsert (collection_name self) points])
    \<and> \<not> isl (fst (add_documents cl self uuid4 documents embeddings w))
    \<and> fst (add_documents cl self uuid4 documents embeddings w) =
        Inr (points \<noteq> []
             \<and> \<not> isl (fst (upsert cl (collection_name self) points (service w))))
    \<and> service (snd (add_documents cl self uuid4 documents embeddings w)) =
        (if points = [] then service w
         else snd (upsert cl (collection_name self) points (service w)))
    \<and> length points =
        length (zip documents embeddings)
          - length (filter (\<lambda>(doc, e). e = []) (zip documents embeddings))
    \<and> map point_id points = map (\<lambda>m. PStr (uuid4 m)) [drawn w..<drawn w + length points]
    \<and> drawn (snd (add_documents cl self uuid4 documents embeddings w)) = drawn w + length points
    \<and> distinct (map point_id points)
    \<and> (\<forall>p\<in>set points. \<forall>m<drawn w. point_id p \<noteq> PStr (uuid4 m))
    \<and> (\<forall>j<length points.
          let i = valid_positions documents embeddings ! j in
            i < length documents \<and> i < length embeddings
          \<and> vector (points ! j) = embeddings ! i \<and> embeddings ! i \<noteq> []
          \<and> dom (payload (points ! j)) =
              {''content'', ''source_type'', ''source_name'', ''session_id'', ''chunk_id''}
          \<and> payload (points ! j) ''content'' = Some (PStr (page_content (documents ! i)))
          \<and> payload (points ! j) ''source_type'' =
              Some (case metadata (documents ! i) ''source_type'' of
                      None \<Rightarrow> PNone
                    | Some v \<Rightarrow> v)
          \<and> payload (points ! j) ''source_name'' =
              Some (case metadata (documents ! i) ''source_name'' of
                      None \<Rightarrow> PNone
                    | Some v \<Rightarrow> v)
          \<and> payload (points ! j) ''session_id'' =
              Some (case metadata (documents ! i) ''session_id'' of
                      None \<Rightarrow> PNone
                    | Some v \<Rightarrow> v)
          \<and> payload (points ! j) ''chunk_id'' =
              Some (case metadata (documents ! i) ''chunk_id'' of
                      None \<Rightarrow> PInt (int i)
                    | Some v \<Rightarrow> v))"
proof -
  let ?vp = "valid_positions documents embeddings"
  let ?pts = "points_built uuid4 (drawn w) documents embeddings"
  have len: "length ?pts = length ?vp"
    by (rule length_points_built)
  have empty: "?pts = [] \<longleftrightarrow> ?vp = []"
    using len by (metis length_0_conv)
  have c: "calls (snd (add_documents cl self uuid4 documents embeddings w)) =
        calls w @ (if ?pts = [] then [] else [Upsert (collection_name self) ?pts])"
    by (simp add: add_documents_calls empty)
  have r: "fst (add_documents cl self uuid4 documents embeddings w) =
        Inr (?pts \<noteq> [] \<and> \<not> isl (fst (upsert cl (collection_name self) ?pts (service w))))"
    by (simp only: add_documents_fst empty)
  have sv: "service (snd (add_documents cl self uuid4 documents embeddings w)) =
        (if ?pts = [] then service w
         else snd (upsert cl (collection_name self) ?pts (service w)))"
    by (simp only: add_documents_service empty)
  have n: "length ?pts = length (zip documents embeddings)
          - length (filter (\<lambda>(doc, e). e = []) (zip documents embeddings))"
    by (simp only: len length_valid_positions)
  have ids: "map point_id ?pts = map (\<lambda>m. PStr (uuid4 m)) [drawn w..<drawn w + length ?pts]"
    by (simp only: len points_built_ids)
  have d: "drawn (snd (add_documents cl self uuid4 documents embeddings w)) =
      drawn w + length ?pts"
    by (simp only: len add_documents_drawn)
  have inj: "inj (\<lambda>m. PStr (uuid4 m))"
    using assms by (auto simp: inj_def)
  have dist: "distinct (map point_id ?pts)"
    unfolding ids using inj by (simp add: distinct_map inj_on_def inj_def)
  have fresh: "\<forall>p\<in>set ?pts. \<forall>m<drawn w. point_id p \<noteq> PStr (uuid4 m)"
  proof (intro ballI allI impI)
    fix p m assume p: "p \<in> set ?pts" and m: "m < drawn w"
    from p have "point_id p \<in> set (map point_id ?pts)" by simp
    then obtain k where "drawn w \<le> k" and "point_id p = PStr (uuid4 k)"
      unfolding ids by auto
    moreover have "uuid4 k \<noteq> uuid4 m"
      using injD [OF assms, of k m] m \<open>drawn w \<le> k\<close> by auto
    ultimately show "point_id p \<noteq> PStr (uuid4 m)"
      by simp
  qed
  have each: "\<forall>j<length ?pts.
          let i = ?vp ! j in
            i < length documents \<and> i < length embeddings
          \<and> vector (?pts ! j) = embeddings ! i \<and> embeddings ! i \<noteq> []
          \<and> dom (payload (?pts ! j)) =
              {''content'', ''source_type'', ''source_name'', ''session_id'', ''chunk_id''}
          \<and> payload (?pts ! j) ''content'' = Some (PStr (page_content (documents ! i)))
          \<and> payload (?pts ! j) ''source_type'' =
              Some (case metadata (documents ! i) ''source_type'' of
                      None \<Rightarrow> PNone
                    | Some v \<Rightarrow> v)
          \<and> payload (?pts ! j) ''source_name'' =
              Some (case metadata (documents ! i) ''source_name'' of
                      None \<Rightarrow> PNone
                    | Some v \<Rightarrow> v)
          \<and> payload (?pts ! j) ''session_id'' =
              Some (case metadata (documents ! i) ''session_id'' of
                      None \<Rightarrow> PNone
                    | Some v \<Rightarrow> v)
          \<and> payload (?pts ! j) ''chunk_id'' =
              Some (case metadata (documents ! i) ''chunk_id'' of
                      None \<Rightarrow> PInt (int i)
                    | Some v \<Rightarrow> v)"
  proof (intro allI impI)
    fix j assume "j < length ?pts"
    then have j: "j < length ?vp" by (simp only: len)
    show "let i = ?vp ! j in
            i < length documents \<and> i < length embeddings
          \<and> vector (?pts ! j) = embeddings ! i \<and> embeddings ! i \<noteq> []
          \<and> dom (payload (?pts ! j)) =
              {''content'', ''source_type'', ''source_name'', ''session_id'', ''chunk_id''}
          \<and> payload (?pts ! j) ''content'' = Some (PStr (page_content (documents ! i)))
          \<and> payload (?pts ! j) ''source_type'' =
              Some (case metadata (documents ! i) ''source_type'' of
                      None \<Rightarrow> PNone
                    | Some v \<Rightarrow> v)
          \<and> payload (?pts ! j) ''source_name'' =
              Some (case metadata (documents ! i) ''source_name'' of
                      None \<Rightarrow> PNone
                    | Some v \<Rightarrow> v)
          \<and> payload (?pts ! j) ''session_id'' =
              Some (case metadata (documents ! i) ''session_id'' of
                      None \<Rightarrow> PNone
                    | Some v \<Rightarrow> v)
          \<and> payload (?pts ! j) ''chunk_id'' =
              Some (case metadata (documents ! i) ''chunk_id'' of
                      None \<Rightarrow> PInt (int i)
                    | Some v \<Rightarrow> v)"
      using valid_positions_nth [OF j]
      by (simp add: Let_def points_built_nth [OF j] point_of_simps dict_get_def)
  qed
  show ?thesis
  proof (intro exI [of _ ?pts] conjI)
    show "calls (snd (add_documents cl self uuid4 documents embeddings w)) =
        calls w @ (if ?pts = [] then [] else [Upsert (collection_name self) ?pts])"
      by (rule c)
    show "\<not> isl (fst (add_documents cl self uuid4 documents embeddings w))"
      by (rule add_documents_no_raise)
    show "fst (add_documents cl self uuid4 documents embeddings w) =
        Inr (?pts \<noteq> [] \<and> \<not> isl (fst (upsert cl (collection_name self) ?pts (service w))))"
      by (rule r)
    show "service (snd (add_documents cl self uuid4 documents embeddings w)) =
        (if ?pts = [] then service w
         else snd (upsert cl (collection_name self) ?pts (service w)))"
      by (rule sv)
    show "length ?pts = length (zip documents embeddings)
          - length (filter (\<lambda>(doc, e). e = []) (zip documents embeddings))"
      by (rule n)
    show "map point_id ?pts = map (\<lambda>m. PStr (uuid4 m)) [drawn w..<drawn w + length ?pts]"
      by (rule ids)
    show "drawn (snd (add_documents cl self uuid4 documents embeddings w)) =
      drawn w + length ?pts"
      by (rule d)
    show "distinct (map point_id ?pts)" by (rule dist)
    show "\<forall>p\<in>set ?pts. \<forall>m<drawn w. point_id p \<noteq> PStr (uuid4 m)" by (rule fresh)
    show "\<forall>j<length ?pts.
          let i = ?vp ! j in
            i < length documents \<and> i < length embeddings
          \<and> vector (?pts ! j) = embeddings ! i \<and> embeddings ! i \<noteq> []
          \<and> dom (payload (?pts ! j)) =
              {''content'', ''source_type'', ''source_name'', ''session_id'', ''chunk_id''}
          \<and> payload (?pts ! j) ''content'' = Some (PStr (page_content (documents ! i)))
          \<and> payload (?pts ! j) ''source_type'' =
              Some (case metadata (documents ! i) ''source_type'' of
                      None \<Rightarrow> PNone
                    | Some v \<Rightarrow> v)
          \<and> payload (?pts ! j) ''source_name'' =
              Some (case metadata (documents ! i) ''source_name'' of
                      None \<Rightarrow> PNone
                    | Some v \<Rightarrow> v)
          \<and> payload (?pts ! j) ''session_id'' =
              Some (case metadata (documents ! i) ''session_id'' of
                      None \<Rightarrow> PNone
                    | Some v \<Rightarrow> v)
          \<and> payload (?pts ! j) ''chunk_id'' =
              Some (case metadata (documents ! i) ''chunk_id'' of
                      None \<Rightarrow> PInt (int i)
                    | Some v \<Rightarrow> v)"
      by (rule each)
  qed
qed

text \<open>
  Claim C5. When the document list is empty, or every embedding is empty, no valid point
  results: \<open>add_documents\<close> returns \<open>False\<close> and sends no request to the service.
\<close>

theorem add_documents_nothing_valid:
  assumes "documents = [] \<or> (\<forall>e\<in>set embeddings. e = [])"
  shows "fst (add_documents cl self uuid4 documents embeddings w) = Inr False
    \<and> calls (snd (add_documents cl self uuid4 documents embeddings w)) = calls w
    \<and> service (snd (add_documents cl self uuid4 documents embeddings w)) = service w"
  using valid_positions_empty [OF assms]
  by (simp add: add_documents_def try_except_def add_documents_body_eq print_simps)

text \<open>
  Claim C9. When the two lists differ in length, only the first
  \<open>min (length documents) (length embeddings)\<close> pairs are considered: the call behaves
  exactly as on the two lists cut to that length, and it does not raise.
\<close>

theorem add_documents_unequal_lengths:
  "add_documents cl self uuid4 documents embeddings w =
     add_documents cl self uuid4
       (take (min (length documents) (length embeddings)) documents)
       (take (min (length documents) (length embeddings)) embeddings) w
   \<and> \<not> isl (fst (add_documents cl self uuid4 documents embeddings w))"
  using add_documents_eq_take [of cl self uuid4 documents embeddings w]
    add_documents_no_raise [of cl self uuid4 documents embeddings w]
  by simp

text \<open>
  Three documents with embeddings \<open>[1]\<close>, \<open>[]\<close>, \<open>[2, 3]\<close>: two points are upserted. The
  first document names session s1 and chunk 7 and no source; the third names only a source
  type and gets its position 2 as chunk.
\<close>

theorem add_documents_builds_points_witness:
  "inj test_uuid4 \<and>
   (\<exists>points.
      calls (snd (add_documents (stub_client [] []) adapter0 test_uuid4
                    [doc_a, doc_b, doc_c] [[1], [], [2, 3]] world0)) =
        [Upsert ''rag_documents'' points]
    \<and> fst (add_documents (stub_client [] []) adapter0 test_uuid4
                    [doc_a, doc_b, doc_c] [[1], [], [2, 3]] world0) = Inr True
    \<and> length points = 2
    \<and> map point_id points = [PStr ''u'', PStr ''uu'']
    \<and> map vector points = [[1], [2, 3]]
    \<and> payload (points ! 0) ''content'' = Some (PStr ''alpha'')
    \<and> payload (points ! 0) ''source_type'' = Some PNone
    \<and> payload (points ! 0) ''source_name'' = Some PNone
    \<and> payload (points ! 0) ''session_id'' = Some (PStr ''s1'')
    \<and> payload (points ! 0) ''chunk_id'' = Some (PInt 7)
    \<and> payload (points ! 1) ''content'' = Some (PStr ''gamma'')
    \<and> payload (points ! 1) ''source_type'' = Some (PStr ''chat'')
    \<and> payload (points ! 1) ''source_name'' = Some PNone
    \<and> payload (points ! 1) ''session_id'' = Some PNone
    \<and> payload (points ! 1) ''chunk_id'' = Some (PInt 2))"
proof -
  have inj: "inj test_uuid4"
  proof (rule injI)
    fix m n assume "test_uuid4 m = test_uuid4 n"
    then have "length (test_uuid4 m) = length (test_uuid4 n)" by simp
    then show "m = n" by (simp add: test_uuid4_def)
  qed
  have vp: "valid_positions [doc_a, doc_b, doc_c] [[1], [], [2, 3]] = [0, 2]"
    by (simp add: valid_positions_def upt_rec)
  obtain points where
    c: "calls (snd (add_documents (stub_client [] []) adapter0 test_uuid4
                    [doc_a, doc_b, doc_c] [[1], [], [2, 3]] world0)) =
        calls world0 @ (if points = [] then [] else [Upsert (collection_name adapter0) points])"
    and r: "fst (add_documents (stub_client [] []) adapter0 test_uuid4
                    [doc_a, doc_b, doc_c] [[1], [], [2, 3]] world0) =
        Inr (points \<noteq> []
             \<and> \<not> isl (fst (upsert (stub_client [] []) (collection_name adapter0) points
                             (service world0))))"
    and n: "length points =
        length (zip [doc_a, doc_b, doc_c] [[1], [], [2, 3::real]])
          - length (filter (\<lambda>(doc, e). e = []) (zip [doc_a, doc_b, doc_c] [[1], [], [2, 3::real]]))"
    and ids: "map point_id points =
        map (\<lambda>m. PStr (test_uuid4 m)) [drawn world0..<drawn world0 + length points]"
    and each: "\<forall>j<length points.
          let i = valid_positions [doc_a, doc_b, doc_c] [[1], [], [2, 3]] ! j in
            i < length [doc_a, doc_b, doc_c] \<and> i < length [[1], [], [2, 3::real]]
          \<and> vector (points ! j) = [[1], [], [2, 3::real]] ! i \<and> [[1], [], [2, 3::real]] ! i \<noteq> []
          \<and> dom (payload (points ! j)) =
              {''content'', ''source_type'', ''source_name'', ''session_id'', ''chunk_id''}
          \<and> payload (points ! j) ''content'' = Some (PStr (page_content ([doc_a, doc_b, doc_c] ! i)))
          \<and> payload (points ! j) ''source_type'' =
              Some (case metadata ([doc_a, doc_b, doc_c] ! i) ''source_type'' of
                      None \<Rightarrow> PNone
                    | Some v \<Rightarrow> v)
          \<and> payload (points ! j) ''source_name'' =
              Some (case metadata ([doc_a, doc_b, doc_c] ! i) ''source_name'' of
                      None \<Rightarrow> PNone
                    | Some v \<Rightarrow> v)
          \<and> payload (points ! j) ''session_id'' =
              Some (case metadata ([doc_a, doc_b, doc_c] ! i) ''session_id'' of
                      None \<Rightarrow> PNone
                    | Some v \<Rightarrow> v)
          \<and> payload (points ! j) ''chunk_id'' =
              Some (case metadata ([doc_a, doc_b, doc_c] ! i) ''chunk_id'' of
                      None \<Rightarrow> PInt (int i)
                    | Some v \<Rightarrow> v)"
    using add_documents_builds_points [OF inj, of "stub_client [] []" adapter0
        "[doc_a, doc_b, doc_c]" "[[1], [], [2, 3]]" world0]
    by blast
  from n have len: "length points = 2" by simp
  then have ne: "points \<noteq> []" by auto
  have e0: "vector (points ! 0) = [1]
      \<and> payload (points ! 0) ''content'' = Some (PStr ''alpha'')
      \<and> payload (points ! 0) ''source_type'' = Some PNone
      \<and> payload (points ! 0) ''source_name'' = Some PNone
      \<and> payload (points ! 0) ''session_id'' = Some (PStr ''s1'')
      \<and> payload (points ! 0) ''chunk_id'' = Some (PInt 7)"
    using each [rule_format, of 0] len unfolding vp Let_def
    by (simp add: doc_a_def)
  have e1: "vector (points ! 1) = [2, 3]
      \<and> payload (points ! 1) ''content'' = Some (PStr ''gamma'')
      \<and> payload (points ! 1) ''source_type'' = Some (PStr ''chat'')
      \<and> payload (points ! 1) ''source_name'' = Some PNone
      \<and> payload (points ! 1) ''session_id'' = Some PNone
      \<and> payload (points ! 1) ''chunk_id'' = Some (PInt 2)"
    using each [rule_format, of 1] len unfolding vp Let_def
    by (simp add: doc_c_def)
  have v: "map vector points = [[1], [2, 3]]"
    using len e0 e1 by (intro nth_equalityI) (auto simp: less_Suc_eq numeral_2_eq_2)
  have i: "map point_id points = [PStr ''u'', PStr ''uu'']"
    using ids len by (simp add: world0_def test_uuid4_def upt_rec numeral_2_eq_2)
  from c ne have u: "calls (snd (add_documents (stub_client [] []) adapter0 test_uuid4
                    [doc_a, doc_b, doc_c] [[1], [], [2, 3]] world0)) =
        [Upsert ''rag_documents'' points]"
    by (simp add: world0_def adapter0_def)
  from r ne have t: "fst (add_documents (stub_client [] []) adapter0 test_uuid4
                    [doc_a, doc_b, doc_c] [[1], [], [2, 3]] world0) = Inr True"
    by (simp add: stub_client_def)
  show ?thesis
  proof (intro conjI exI [of _ points])
    show "inj test_uuid4" by (rule inj)
    show "calls (snd (add_documents (stub_client [] []) adapter0 test_uuid4
                    [doc_a, doc_b, doc_c] [[1], [], [2, 3]] world0)) =
        [Upsert ''rag_documents'' points]" by (rule u)
    show "fst (add_documents (stub_client [] []) adapter0 test_uuid4
                    [doc_a, doc_b, doc_c] [[1], [], [2, 3]] world0) = Inr True" by (rule t)
    show "length points = 2" by (rule len)
    show "map point_id points = [PStr ''u'', PStr ''uu'']" by (rule i)
    show "map vector points = [[1], [2, 3]]" by (rule v)
    show "payload (points ! 0) ''content'' = Some (PStr ''alpha'')" using e0 by simp
    show "payload (points ! 0) ''source_type'' = Some PNone" using e0 by simp
    show "payload (points ! 0) ''source_name'' = Some PNone" using e0 by simp
    show "payload (points ! 0) ''session_id'' = Some (PStr ''s1'')" using e0 by simp
    show "payload (points ! 0) ''chunk_id'' = Some (PInt 7)" using e0 by simp
    show "payload (points ! 1) ''content'' = Some (PStr ''gamma'')" using e1 by simp
    show "payload (points ! 1) ''source_type'' = Some (PStr ''chat'')" using e1 by simp
    show "payload (points ! 1) ''source_name'' = Some PNone" using e1 by simp
    show "payload (points ! 1) ''session_id'' = Some PNone" using e1 by simp
    show "payload (points ! 1) ''chunk_id'' = Some (PInt 2)" using e1 by simp
  qed
qed

text \<open>Two documents with empty embeddings, and no document at all.\<close>

theorem add_documents_nothing_valid_witness:
  "fst (add_documents (stub_client [] []) adapter0 test_uuid4 [doc_a, doc_b] [[], []] world0)
     = Inr False
   \<and> calls (snd (add_documents (stub_client [] []) adapter0 test_uuid4 [doc_a, doc_b] [[], []]
        world0)) = []
   \<and> fst (add_documents (stub_client [] []) adapter0 test_uuid4 [] [[1]] world0) = Inr False
   \<and> calls (snd (add_documents (stub_client [] []) adapter0 test_uuid4 [] [[1]] world0)) = []"
  using add_documents_nothing_valid [of "[doc_a, doc_b]" "[[], []]" "stub_client [] []" adapter0
      test_uuid4 world0]
    add_documents_nothing_valid [of "[]" "[[1]]" "stub_client [] []" adapter0 test_uuid4 world0]
  by (simp add: world0_def)

subsection \<open>Facts about similarity\_search\<close>




lemma document_of_missing:
  "payload r ''content'' = None \<Longrightarrow> document_of r = Inl (KeyError ''content'')"
  by (simp add: document_of_def)

lemma document_of_str:
  "payload r ''content'' = Some (PStr t) \<Longrightarrow>
   document_of r =
     Inr \<lparr>page_content = t,
          metadata =
            [''source_type'' \<mapsto> dict_get (payload r) ''source_type'' PNone,
             ''source_name'' \<mapsto> dict_get (payload r) ''source_name'' PNone,
             ''session_id'' \<mapsto> dict_get (payload r) ''session_id'' PNone,
             ''chunk_id'' \<mapsto> dict_get (payload r) ''chunk_id'' PNone,
             ''score'' \<mapsto> PFloat (score r)]\<rparr>"
  by (simp add: document_of_def new_document_def)

lemma document_of_Inr:
  assumes "document_of r = Inr d"
  shows "payload r ''content'' = Some (PStr (page_content d))"
    and "metadata d =
            [''source_type'' \<mapsto> dict_get (payload r) ''source_type'' PNone,
             ''source_name'' \<mapsto> dict_get (payload r) ''source_name'' PNone,
             ''session_id'' \<mapsto> dict_get (payload r) ''session_id'' PNone,
             ''chunk_id'' \<mapsto> dict_get (payload r) ''chunk_id'' PNone,
             ''score'' \<mapsto> PFloat (score r)]"
  using assms
  by (auto simp: document_of_def new_document_def split: option.splits pyval.splits)

lemma document_of_Inl:
  assumes "document_of r = Inl e"
  shows "(payload r ''content'' = None \<and> e = KeyError ''content'')
       \<or> ((\<exists>v. payload r ''content'' = Some v \<and> (\<forall>t. v \<noteq> PStr t))
          \<and> e = ValidationError ''Document'')"
  using assms
  by (auto simp: document_of_def new_document_def split: option.splits pyval.splits)

lemma similarity_search_loop_Inr:
  "list_all2 (\<lambda>r d. document_of r = Inr d) results ds \<Longrightarrow>
   similarity_search_loop results documents = Inr (documents @ ds)"
  by (induction arbitrary: documents rule: list_all2_induct) simp_all


lemma similarity_search_loop_Inl:
  "similarity_search_loop results documents = Inl e \<Longrightarrow> \<exists>r\<in>set results. document_of r = Inl e"
  by (induction results arbitrary: documents) (auto split: sum.splits)

lemma similarity_search_loop_raises:
  "r \<in> set results \<Longrightarrow> isl (document_of r) \<Longrightarrow>
   isl (similarity_search_loop results documents)"
  by (induction results arbitrary: documents) (auto split: sum.splits)

lemma similarity_search_eq:
  assumes "query_embedding \<noteq> []"
    and "query_filter_of filter_dict = Inr qf"
    and "query_points cl (collection_name self) query_embedding qf k (service w) = (r, s')"
  shows "similarity_search cl self query_embedding k filter_dict w =
     (case r of
        Inl e \<Rightarrow>
          (Inr [],
           print (''Error performing similarity search: '' @ str_exn e)
             (w\<lparr>service := s',
                calls := calls w @ [QueryPoints (collection_name self) query_embedding qf k]\<rparr>))
      | Inr results \<Rightarrow>
          (case similarity_search_loop results [] of
             Inl e \<Rightarrow>
               (Inr [],
                print (''Error performing similarity search: '' @ str_exn e)
                  (w\<lparr>service := s',
                     calls :=
                       calls w @ [QueryPoints (collection_name self) query_embedding qf k]\<rparr>))
           | Inr documents \<Rightarrow>
               (Inr documents,
                w\<lparr>service := s',
                  calls :=
                    calls w @ [QueryPoints (collection_name self) query_embedding qf k]\<rparr>)))"
  using assms
  by (simp add: similarity_search_def try_except_def similarity_search_body_def invoke_def
      split: sum.splits)





subsection \<open>similarity\_search\<close>

text \<open>
  Claim C6. A similarity search succeeds when the query is not empty, the filter can be
  built, the service answers, and every returned point has a string as content. Then one
  Document is returned per point, in the order of the service's answer, and nothing is
  printed. The text of each Document is the content of its point's payload; its metadata
  has exactly the keys source\_type, source\_name, session\_id, chunk\_id and score, the first
  four with the payload's value (\<open>None\<close> when the payload lacks the key), the last with the
  point's score.
\<close>

theorem similarity_search_keeps_order:
  assumes "query_embedding \<noteq> []"
    and "query_filter_of filter_dict = Inr query_filter"
    and "query_points cl (collection_name self) query_embedding query_filter k (service w) =
           (Inr results, s')"
    and "\<forall>p\<in>set results. \<exists>t. payload p ''content'' = Some (PStr t)"
  shows "\<exists>documents.
      fst (similarity_search cl self query_embedding k filter_dict w) = Inr documents
    \<and> stdout (snd (similarity_search cl self query_embedding k filter_dict w)) = stdout w
    \<and> calls (snd (similarity_search cl self query_embedding k filter_dict w)) =
        calls w @ [QueryPoints (collection_name self) query_embedding query_filter k]
    \<and> length documents = length results
    \<and> (\<forall>j<length results.
          payload (results ! j) ''content'' = Some (PStr (page_content (documents ! j)))
        \<and> dom (metadata (documents ! j)) =
            {''source_type'', ''source_name'', ''session_id'', ''chunk_id'', ''score''}
        \<and> metadata (documents ! j) ''source_type'' =
            Some (case payload (results ! j) ''source_type'' of None \<Rightarrow> PNone | Some v \<Rightarrow> v)
        \<and> metadata (documents ! j) ''source_name'' =
            Some (case payload (results ! j) ''source_name'' of None \<Rightarrow> PNone | Some v \<Rightarrow> v)
        \<and> metadata (documents ! j) ''session_id'' =
            Some (case payload (results ! j) ''session_id'' of None \<Rightarrow> PNone | Some v \<Rightarrow> v)
        \<and> metadata (documents ! j) ''chunk_id'' =
            Some (case payload (results ! j) ''chunk_id'' of None \<Rightarrow> PNone | Some v \<Rightarrow> v)
        \<and> metadata (documents ! j) ''score'' = Some (PFloat (score (results ! j))))"
proof -
  let ?docs = "map (\<lambda>p. projr (document_of p)) results"
  have ok: "document_of p = Inr (projr (document_of p))" if "p \<in> set results" for p
  proof -
    from that assms(4) obtain t where "payload p ''content'' = Some (PStr t)" by blast
    from document_of_str [OF this] show ?thesis by simp
  qed
  have "list_all2 (\<lambda>r d. document_of r = Inr d) results ?docs"
  proof (rule list_all2_all_nthI)
    show "length results = length ?docs" by simp
  next
    fix n assume n: "n < length results"
    show "document_of (results ! n) = Inr (?docs ! n)"
      unfolding nth_map [OF n] by (rule ok [OF nth_mem [OF n]])
  qed
  from similarity_search_loop_Inr [OF this, of "[]"]
  have loop: "similarity_search_loop results [] = Inr ?docs" by simp
  note eq = similarity_search_eq [OF assms(1,2,3)]
  have r: "fst (similarity_search cl self query_embedding k filter_dict w) = Inr ?docs"
    using eq loop by simp
  have o: "stdout (snd (similarity_search cl self query_embedding k filter_dict w)) = stdout w"
    using eq loop by simp
  have c: "calls (snd (similarity_search cl self query_embedding k filter_dict w)) =
        calls w @ [QueryPoints (collection_name self) query_embedding query_filter k]"
    using eq loop by simp
  have e: "\<forall>j<length results.
          payload (results ! j) ''content'' = Some (PStr (page_content (?docs ! j)))
        \<and> dom (metadata (?docs ! j)) =
            {''source_type'', ''source_name'', ''session_id'', ''chunk_id'', ''score''}
        \<and> metadata (?docs ! j) ''source_type'' =
            Some (case payload (results ! j) ''source_type'' of None \<Rightarrow> PNone | Some v \<Rightarrow> v)
        \<and> metadata (?docs ! j) ''source_name'' =
            Some (case payload (results ! j) ''source_name'' of None \<Rightarrow> PNone | Some v \<Rightarrow> v)
        \<and> metadata (?docs ! j) ''session_id'' =
            Some (case payload (results ! j) ''session_id'' of None \<Rightarrow> PNone | Some v \<Rightarrow> v)
        \<and> metadata (?docs ! j) ''chunk_id'' =
            Some (case payload (results ! j) ''chunk_id'' of None \<Rightarrow> PNone | Some v \<Rightarrow> v)
        \<and> metadata (?docs ! j) ''score'' = Some (PFloat (score (results ! j)))"
  proof (intro allI impI)
    fix j assume j: "j < length results"
    let ?p = "results ! j"
    let ?d = "projr (document_of ?p)"
    have d: "document_of ?p = Inr ?d" by (rule ok [OF nth_mem [OF j]])
    have n: "?docs ! j = ?d" using j by simp
    have m: "dom (metadata ?d) =
            {''source_type'', ''source_name'', ''session_id'', ''chunk_id'', ''score''}"
      unfolding document_of_Inr(2) [OF d] by auto
    show "payload (results ! j) ''content'' = Some (PStr (page_content (?docs ! j)))
        \<and> dom (metadata (?docs ! j)) =
            {''source_type'', ''source_name'', ''session_id'', ''chunk_id'', ''score''}
        \<and> metadata (?docs ! j) ''source_type'' =
            Some (case payload (results ! j) ''source_type'' of None \<Rightarrow> PNone | Some v \<Rightarrow> v)
        \<and> metadata (?docs ! j) ''source_name'' =
            Some (case payload (results ! j) ''source_name'' of None \<Rightarrow> PNone | Some v \<Rightarrow> v)
        \<and> metadata (?docs ! j) ''session_id'' =
            Some (case payload (results ! j) ''session_id'' of None \<Rightarrow> PNone | Some v \<Rightarrow> v)
        \<and> metadata (?docs ! j) ''chunk_id'' =
            Some (case payload (results ! j) ''chunk_id'' of None \<Rightarrow> PNone | Some v \<Rightarrow> v)
        \<and> metadata (?docs ! j) ''score'' = Some (PFloat (score (results ! j)))"
      unfolding n
      using document_of_Inr(1) [OF d] m
      by (simp add: document_of_Inr(2) [OF d] dict_get_def)
  qed
  show ?thesis
  proof (intro exI [of _ ?docs] conjI)
    show "fst (similarity_search cl self query_embedding k filter_dict w) = Inr ?docs"
      by (rule r)
    show "stdout (snd (similarity_search cl self query_embedding k filter_dict w)) = stdout w"
      by (rule o)
    show "calls (snd (similarity_search cl self query_embedding k filter_dict w)) =
        calls w @ [QueryPoints (collection_name self) query_embedding query_filter k]"
      by (rule c)
    show "length ?docs = length results" by simp
    show "\<forall>j<length results.
          payload (results ! j) ''content'' = Some (PStr (page_content (?docs ! j)))
        \<and> dom (metadata (?docs ! j)) =
            {''source_type'', ''source_name'', ''session_id'', ''chunk_id'', ''score''}
        \<and> metadata (?docs ! j) ''source_type'' =
            Some (case payload (results ! j) ''source_type'' of None \<Rightarrow> PNone | Some v \<Rightarrow> v)
        \<and> metadata (?docs ! j) ''source_name'' =
            Some (case payload (results ! j) ''source_name'' of None \<Rightarrow> PNone | Some v \<Rightarrow> v)
        \<and> metadata (?docs ! j) ''session_id'' =
            Some (case payload (results ! j) ''session_id'' of None \<Rightarrow> PNone | Some v \<Rightarrow> v)
        \<and> metadata (?docs ! j) ''chunk_id'' =
            Some (case payload (results ! j) ''chunk_id'' of None \<Rightarrow> PNone | Some v \<Rightarrow> v)
        \<and> metadata (?docs ! j) ''score'' = Some (PFloat (score (results ! j)))"
      by (rule e)
  qed
qed

text \<open>
  Claim C10. When the service's answer contains a point whose payload lacks the key
  content, building the Document of that point raises \<open>KeyError\<close>; the result-mapping
  loop is left with an exception, the handler prints it, and the call returns the empty
  list although the query was sent and answered, whatever the other points of the answer
  are. The exception is the \<open>KeyError\<close> itself when every content that is present is a
  string.
\<close>

theorem similarity_search_missing_content:
  assumes "query_embedding \<noteq> []"
    and "query_filter_of filter_dict = Inr query_filter"
    and "query_points cl (collection_name self) query_embedding query_filter k (service w) =
           (Inr results, s')"
    and "p \<in> set results" and "payload p ''content'' = None"
  shows "document_of p = Inl (KeyError ''content'')
    \<and> fst (similarity_search cl self query_embedding k filter_dict w) = Inr []
    \<and> calls (snd (similarity_search cl self query_embedding k filter_dict w)) =
        calls w @ [QueryPoints (collection_name self) query_embedding query_filter k]
    \<and> (\<exists>e. similarity_search_loop results [] = Inl e
           \<and> stdout (snd (similarity_search cl self query_embedding k filter_dict w)) =
               stdout w @ [''Error performing similarity search: '' @ str_exn e])
    \<and> ((\<forall>r\<in>set results. \<forall>v. payload r ''content'' = Some v \<longrightarrow> (\<exists>t. v = PStr t))
        \<longrightarrow> similarity_search_loop results [] = Inl (KeyError ''content''))"
proof -
  have d: "document_of p = Inl (KeyError ''content'')"
    using assms(5) by (rule document_of_missing)
  then have "isl (similarity_search_loop results [])"
    using similarity_search_loop_raises [OF assms(4), of "[]"] by simp
  then obtain e where l: "similarity_search_loop results [] = Inl e"
    by (cases "similarity_search_loop results []") auto
  note eq = similarity_search_eq [OF assms(1,2,3)]
  have r: "fst (similarity_search cl self query_embedding k filter_dict w) = Inr []"
    using eq l by simp
  have c: "calls (snd (similarity_search cl self query_embedding k filter_dict w)) =
        calls w @ [QueryPoints (collection_name self) query_embedding query_filter k]"
    using eq l by (simp add: print_simps)
  have o: "stdout (snd (similarity_search cl self query_embedding k filter_dict w)) =
               stdout w @ [''Error performing similarity search: '' @ str_exn e]"
    using eq l by (simp add: print_simps)
  have k: "(\<forall>r\<in>set results. \<forall>v. payload r ''content'' = Some v \<longrightarrow> (\<exists>t. v = PStr t))
        \<longrightarrow> similarity_search_loop results [] = Inl (KeyError ''content'')"
  proof
    assume a: "\<forall>r\<in>set results. \<forall>v. payload r ''content'' = Some v \<longrightarrow> (\<exists>t. v = PStr t)"
    from similarity_search_loop_Inl [OF l] obtain r where "r \<in> set results"
      and "document_of r = Inl e" by blast
    with a document_of_Inl [of r e] have "e = KeyError ''content''" by blast
    with l show "similarity_search_loop results [] = Inl (KeyError ''content'')" by simp
  qed
  from l o have x: "\<exists>e. similarity_search_loop results [] = Inl e
           \<and> stdout (snd (similarity_search cl self query_embedding k filter_dict w)) =
               stdout w @ [''Error performing similarity search: '' @ str_exn e]"
    by blast
  from d r c x k show ?thesis by (intro conjI)
qed


text \<open>
  A search answered with two points: two Documents in the same order, the second with the
  chunk its payload names, the first with none.
\<close>

theorem similarity_search_keeps_order_witness:
  "\<exists>documents.
      fst (similarity_search (stub_client [hit_a, hit_b] []) adapter0 [1] 2 None world0)
        = Inr documents
    \<and> map page_content documents = [''alpha'', ''beta'']
    \<and> map (\<lambda>d. metadata d ''score'') documents = [Some (PFloat 0.5), Some (PFloat 0.25)]
    \<and> map (\<lambda>d. metadata d ''session_id'') documents = [Some (PStr ''s1''), Some (PStr ''s1'')]
    \<and> map (\<lambda>d. metadata d ''chunk_id'') documents = [Some PNone, Some (PInt 4)]"
proof -
  have n: "[1::real] \<noteq> []" by simp
  have f: "query_filter_of None = Inr None"
    by (simp add: query_filter_of_def)
  have q: "query_points (stub_client [hit_a, hit_b] []) (collection_name adapter0) [1]
      None 2 (service world0) = (Inr [hit_a, hit_b], ())"
    by (simp add: stub_client_def)
  have c: "\<forall>p\<in>set [hit_a, hit_b]. \<exists>t. payload p ''content'' = Some (PStr t)"
    by (simp add: hit_a_def hit_b_def)
  obtain documents where
    r: "fst (similarity_search (stub_client [hit_a, hit_b] []) adapter0 [1] 2 None world0)
        = Inr documents"
    and l: "length documents = length [hit_a, hit_b]"
    and e: "\<forall>j<length [hit_a, hit_b].
          payload ([hit_a, hit_b] ! j) ''content'' = Some (PStr (page_content (documents ! j)))
        \<and> dom (metadata (documents ! j)) =
            {''source_type'', ''source_name'', ''session_id'', ''chunk_id'', ''score''}
        \<and> metadata (documents ! j) ''source_type'' =
            Some (case payload ([hit_a, hit_b] ! j) ''source_type'' of
                    None \<Rightarrow> PNone | Some v \<Rightarrow> v)
        \<and> metadata (documents ! j) ''source_name'' =
            Some (case payload ([hit_a, hit_b] ! j) ''source_name'' of
                    None \<Rightarrow> PNone | Some v \<Rightarrow> v)
        \<and> metadata (documents ! j) ''session_id'' =
            Some (case payload ([hit_a, hit_b] ! j) ''session_id'' of
                    None \<Rightarrow> PNone | Some v \<Rightarrow> v)
        \<and> metadata (documents ! j) ''chunk_id'' =
            Some (case payload ([hit_a, hit_b] ! j) ''chunk_id'' of
                    None \<Rightarrow> PNone | Some v \<Rightarrow> v)
        \<and> metadata (documents ! j) ''score'' = Some (PFloat (score ([hit_a, hit_b] ! j)))"
    using similarity_search_keeps_order [OF n f q c] by blast
  from l obtain d0 d1 where d: "documents = [d0, d1]"
    by (cases documents; cases "tl documents") auto
  from e [rule_format, of 0] d have e0: "page_content d0 = ''alpha''
      \<and> metadata d0 ''score'' = Some (PFloat 0.5)
      \<and> metadata d0 ''session_id'' = Some (PStr ''s1'')
      \<and> metadata d0 ''chunk_id'' = Some PNone"
    by (simp add: hit_a_def)
  from e [rule_format, of 1] d have e1: "page_content d1 = ''beta''
      \<and> metadata d1 ''score'' = Some (PFloat 0.25)
      \<and> metadata d1 ''session_id'' = Some (PStr ''s1'')
      \<and> metadata d1 ''chunk_id'' = Some (PInt 4)"
    by (simp add: hit_b_def)
  show ?thesis
    using r d e0 e1 by simp
qed

text \<open>
  An answer of three points, the second without content: nothing is returned and the
  \<open>KeyError\<close> is printed.
\<close>

theorem similarity_search_missing_content_witness:
  "fst (similarity_search (stub_client [hit_a, hit_bad, hit_b] []) adapter0 [1] 5 None world0)
     = Inr []
   \<and> similarity_search_loop [hit_a, hit_bad, hit_b] [] = Inl (KeyError ''content'')
   \<and> calls (snd (similarity_search (stub_client [hit_a, hit_bad, hit_b] []) adapter0 [1] 5 None
        world0)) = [QueryPoints ''rag_documents'' [1] None 5]"
proof -
  have n: "[1::real] \<noteq> []" by simp
  have f: "query_filter_of None = Inr None"
    by (simp add: query_filter_of_def)
  have q: "query_points (stub_client [hit_a, hit_bad, hit_b] []) (collection_name adapter0) [1]
      None 5 (service world0) = (Inr [hit_a, hit_bad, hit_b], ())"
    by (simp add: stub_client_def)
  have m: "hit_bad \<in> set [hit_a, hit_bad, hit_b]" by simp
  have b: "payload hit_bad ''content'' = None" by (simp add: hit_bad_def)
  have s: "\<forall>r\<in>set [hit_a, hit_bad, hit_b].
      \<forall>v. payload r ''content'' = Some v \<longrightarrow> (\<exists>t. v = PStr t)"
    by (simp add: hit_a_def hit_b_def hit_bad_def)
  show ?thesis
    using similarity_search_missing_content [OF n f q m b] s
    by (simp add: world0_def adapter0_def)
qed



subsection \<open>Facts about the session operations and the collection information\<close>

lemma get_documents_loop_eq: "get_documents_loop points docs = docs @ map doc_record_of points"
  by (induction points arbitrary: docs) auto

lemma doc_record_of_dom:
  "dom (doc_record_of p) = {''id'', ''content'', ''source_type'', ''source_name'', ''chunk_id''}"
  by (auto simp: doc_record_of_def)

lemma get_documents_by_session_eq:
  assumes "scroll cl (collection_name self) (session_filter session_id) 1000 (service w) = (r, s')"
  shows "get_documents_by_session cl self session_id w =
     (case r of
        Inl e \<Rightarrow>
          (Inr [],
           print (''Error getting documents by session: '' @ str_exn e)
             (w\<lparr>service := s',
                calls := calls w @ [Scroll (collection_name self) (session_filter session_id) 1000]\<rparr>))
      | Inr (points, next_offset) \<Rightarrow>
          (Inr (map doc_record_of points),
           w\<lparr>service := s',
             calls := calls w @ [Scroll (collection_name self) (session_filter session_id) 1000]\<rparr>))"
  using assms
  by (simp add: get_documents_by_session_def try_except_def get_documents_by_session_body_def
      invoke_def get_documents_loop_eq split: sum.splits prod.splits)




subsection \<open>Fail-soft operations\<close>



subsection \<open>get\_documents\_by\_session\<close>

text \<open>
  Claim C8. \<open>get_documents_by_session\<close> sends exactly one request, a scroll with the single
  condition session\_id = the given value and the limit 1000, and no query; it returns one
  record per point the service returns, in order. With a service that returns no more
  points than the limit it is given, at most 1000 records are returned. Each record has
  exactly the keys id, content, source\_type, source\_name and chunk\_id: the point's id and
  the payload's values, \<open>None\<close> where the payload lacks the key.
\<close>

theorem get_documents_by_session_capped:
  assumes "\<forall>points next_offset s'.
      scroll cl (collection_name self) (session_filter session_id) 1000 (service w) =
        (Inr (points, next_offset), s') \<longrightarrow> length points \<le> 1000"
  shows "calls (snd (get_documents_by_session cl self session_id w)) =
        calls w @ [Scroll (collection_name self)
                     (Filter [FieldCondition ''session_id'' (MatchValue (PStr session_id))]) 1000]
    \<and> (\<exists>docs.
          fst (get_documents_by_session cl self session_id w) = Inr docs
        \<and> length docs \<le> 1000
        \<and> (\<forall>d\<in>set docs.
              dom d = {''id'', ''content'', ''source_type'', ''source_name'', ''chunk_id''})
        \<and> (\<forall>points next_offset s'.
              scroll cl (collection_name self) (session_filter session_id) 1000 (service w) =
                (Inr (points, next_offset), s')
              \<longrightarrow> length docs = length points
                \<and> (\<forall>j<length points.
                      (docs ! j) ''id'' = Some (point_id (points ! j))
                    \<and> (docs ! j) ''content'' =
                        Some (case payload (points ! j) ''content'' of
                                None \<Rightarrow> PNone | Some v \<Rightarrow> v)
                    \<and> (docs ! j) ''source_type'' =
                        Some (case payload (points ! j) ''source_type'' of
                                None \<Rightarrow> PNone | Some v \<Rightarrow> v)
                    \<and> (docs ! j) ''source_name'' =
                        Some (case payload (points ! j) ''source_name'' of
                                None \<Rightarrow> PNone | Some v \<Rightarrow> v)
                    \<and> (docs ! j) ''chunk_id'' =
                        Some (case payload (points ! j) ''chunk_id'' of
                                None \<Rightarrow> PNone | Some v \<Rightarrow> v))))"
proof -
  obtain r s1 where g: "scroll cl (collection_name self) (session_filter session_id) 1000
      (service w) = (r, s1)"
    by (cases "scroll cl (collection_name self) (session_filter session_id) 1000 (service w)")
  note eq = get_documents_by_session_eq [OF g]
  have c: "calls (snd (get_documents_by_session cl self session_id w)) =
        calls w @ [Scroll (collection_name self)
                     (Filter [FieldCondition ''session_id'' (MatchValue (PStr session_id))]) 1000]"
    using eq by (cases r) (auto simp: print_simps session_filter_def)
  show ?thesis
  proof (cases r)
    case (Inl e)
    with eq have "fst (get_documents_by_session cl self session_id w) = Inr []" by simp
    with c g Inl show ?thesis by simp
  next
    case (Inr pr)
    obtain points off where pr: "pr = (points, off)" by (cases pr)
    with eq Inr have f: "fst (get_documents_by_session cl self session_id w) =
        Inr (map doc_record_of points)" by simp
    from assms g Inr pr have len: "length points \<le> 1000" by blast
    have "\<forall>j<length points.
              (map doc_record_of points ! j) ''id'' = Some (point_id (points ! j))
            \<and> (map doc_record_of points ! j) ''content'' =
                Some (case payload (points ! j) ''content'' of None \<Rightarrow> PNone | Some v \<Rightarrow> v)
            \<and> (map doc_record_of points ! j) ''source_type'' =
                Some (case payload (points ! j) ''source_type'' of None \<Rightarrow> PNone | Some v \<Rightarrow> v)
            \<and> (map doc_record_of points ! j) ''source_name'' =
                Some (case payload (points ! j) ''source_name'' of None \<Rightarrow> PNone | Some v \<Rightarrow> v)
            \<and> (map doc_record_of points ! j) ''chunk_id'' =
                Some (case payload (points ! j) ''chunk_id'' of None \<Rightarrow> PNone | Some v \<Rightarrow> v)"
      by (simp add: doc_record_of_def dict_get_def)
    with c f len g Inr pr show ?thesis
      by (auto simp: doc_record_of_dom)
  qed
qed

text \<open>
  The service holds two points of session s1 and one of session s2 and applies filter and
  limit: the two records of s1 are returned, the second with its integer id and no content.
\<close>

theorem get_documents_by_session_capped_witness:
  "\<exists>docs.
      fst (get_documents_by_session (filtering_client [] [rec_a, rec_other, rec_b]) adapter0
             ''s1'' world0) = Inr docs
    \<and> length docs = 2 \<and> length docs \<le> 1000
    \<and> (docs ! 0) ''id'' = Some (PStr ''p1'') \<and> (docs ! 0) ''content'' = Some (PStr ''alpha'')
    \<and> (docs ! 1) ''id'' = Some (PInt 17) \<and> (docs ! 1) ''content'' = Some PNone
    \<and> calls (snd (get_documents_by_session (filtering_client [] [rec_a, rec_other, rec_b])
         adapter0 ''s1'' world0)) =
        [Scroll ''rag_documents''
           (Filter [FieldCondition ''session_id'' (MatchValue (PStr ''s1''))]) 1000]"
proof -
  have h: "\<forall>points next_offset s'.
      scroll (filtering_client [] [rec_a, rec_other, rec_b]) (collection_name adapter0)
        (session_filter ''s1'') 1000 (service world0) = (Inr (points, next_offset), s')
      \<longrightarrow> length points \<le> 1000"
    by (auto simp: filtering_client_def)
  have sc: "scroll (filtering_client [] [rec_a, rec_other, rec_b]) (collection_name adapter0)
      (session_filter ''s1'') 1000 (service world0) = (Inr ([rec_a, rec_b], PNone), ())"
    by (simp add: filtering_client_def session_filter_def satisfies_def condition_holds_def
        rec_a_def rec_b_def rec_other_def)
  note t = get_documents_by_session_capped [OF h]
  have c: "calls (snd (get_documents_by_session (filtering_client [] [rec_a, rec_other, rec_b])
         adapter0 ''s1'' world0)) =
        calls world0 @ [Scroll (collection_name adapter0)
           (Filter [FieldCondition ''session_id'' (MatchValue (PStr ''s1''))]) 1000]"
    by (rule conjunct1 [OF t])
  from conjunct2 [OF t] obtain docs where
    f: "fst (get_documents_by_session (filtering_client [] [rec_a, rec_other, rec_b])
         adapter0 ''s1'' world0) = Inr docs"
    and l: "length docs \<le> 1000"
    and dm: "\<forall>d\<in>set docs.
              dom d = {''id'', ''content'', ''source_type'', ''source_name'', ''chunk_id''}"
    and e: "\<forall>points next_offset s'.
              scroll (filtering_client [] [rec_a, rec_other, rec_b]) (collection_name adapter0)
                (session_filter ''s1'') 1000 (service world0) = (Inr (points, next_offset), s')
              \<longrightarrow> length docs = length points
                \<and> (\<forall>j<length points.
                      (docs ! j) ''id'' = Some (point_id (points ! j))
                    \<and> (docs ! j) ''content'' =
                        Some (case payload (points ! j) ''content'' of
                                None \<Rightarrow> PNone | Some v \<Rightarrow> v)
                    \<and> (docs ! j) ''source_type'' =
                        Some (case payload (points ! j) ''source_type'' of
                                None \<Rightarrow> PNone | Some v \<Rightarrow> v)
                    \<and> (docs ! j) ''source_name'' =
                        Some (case payload (points ! j) ''source_name'' of
                                None \<Rightarrow> PNone | Some v \<Rightarrow> v)
                    \<and> (docs ! j) ''chunk_id'' =
                        Some (case payload (points ! j) ''chunk_id'' of
                                None \<Rightarrow> PNone | Some v \<Rightarrow> v))"
    by (elim exE conjE) (rule that)
  note e' = e [rule_format, OF sc]
  from e' have l2: "length docs = 2" by simp
  from e' have ej: "(docs ! j) ''id'' = Some (point_id ([rec_a, rec_b] ! j))
      \<and> (docs ! j) ''content'' =
          Some (case payload ([rec_a, rec_b] ! j) ''content'' of None \<Rightarrow> PNone | Some v \<Rightarrow> v)"
    if "j < 2" for j
    using that by simp
  from ej [of 0] have e0: "(docs ! 0) ''id'' = Some (PStr ''p1'')
      \<and> (docs ! 0) ''content'' = Some (PStr ''alpha'')"
    by (simp add: rec_a_def)
  from ej [of 1] have e1: "(docs ! 1) ''id'' = Some (PInt 17) \<and> (docs ! 1) ''content'' = Some PNone"
    by (simp add: rec_b_def)
  show ?thesis
    using c f l l2 e0 e1 by (simp add: world0_def adapter0_def)
qed

subsection \<open>Construction and setup\<close>

lemma ensure_collection_exists_fst:
  "fst (ensure_collection_exists cl self w) =
     (case get_collections cl (service w) of
        (Inl e, s1) \<Rightarrow> Inl e
      | (Inr names, s1) \<Rightarrow>
          if collection_name self \<notin> set names then
            (case create_collection cl (collection_name self)
                    \<lparr>size = vector_size self, distance = COSINE\<rparr> s1 of
               (Inl e, s2) \<Rightarrow> Inl e
             | (Inr u, s2) \<Rightarrow> Inr ())
          else Inr ())"
  by (simp add: ensure_collection_exists_def try_except_def ensure_collection_exists_body_def
      invoke_def split: prod.splits sum.splits)

lemma init_fst:
  "fst (init cl environ w) =
     (case fst (ensure_collection_exists cl
                  \<lparr>collection_name = getenv environ ''COLLECTION_NAME'' ''rag_documents'',
                   vector_size = 768\<rparr> w) of
        Inl e \<Rightarrow> Inl e
      | Inr u \<Rightarrow> Inr \<lparr>collection_name = getenv environ ''COLLECTION_NAME'' ''rag_documents'',
                     vector_size = 768\<rparr>)"
  by (simp add: init_def Let_def split: prod.splits sum.splits)

lemma ensure_payload_index_stdout:
  assumes "fst (create_payload_index cl (collection_name self) field_name KEYWORD (service w)) = Inl e"
  shows "stdout (ensure_payload_index cl self field_name w) =
     stdout w @ (if contains ''already exists'' (lower (str_exn e)) then [] else [str_exn e])"
  using assms
  by (auto simp: ensure_payload_index_def invoke_def print_def split: prod.splits sum.splits)

lemma ensure_payload_index_calls:
  "calls (ensure_payload_index cl self field_name w) =
     calls w @ [CreatePayloadIndex (collection_name self) field_name KEYWORD]"
  by (auto simp: ensure_payload_index_def invoke_def print_def split: prod.splits sum.splits)

lemma ensure_collection_exists_calls:
  "set (calls (snd (ensure_collection_exists cl self w))) \<subseteq>
     set (calls w) \<union>
       {GetCollections,
        CreateCollection (collection_name self) \<lparr>size = vector_size self, distance = COSINE\<rparr>,
        CreatePayloadIndex (collection_name self) ''session_id'' KEYWORD,
        CreatePayloadIndex (collection_name self) ''source_type'' KEYWORD}"
proof -
  obtain r s1 where g: "get_collections cl (service w) = (r, s1)"
    by (cases "get_collections cl (service w)")
  show ?thesis
  proof (cases r)
    case (Inl e)
    with g show ?thesis
      by (auto simp: ensure_collection_exists_def try_except_def
          ensure_collection_exists_body_def invoke_def print_simps)
  next
    case (Inr names)
    show ?thesis
    proof (cases "collection_name self \<in> set names")
      case True
      with g Inr show ?thesis
        by (auto simp: ensure_collection_exists_def try_except_def
            ensure_collection_exists_body_def invoke_def ensure_payload_index_calls)
    next
      case False
      obtain r2 s2 where k: "create_collection cl (collection_name self)
          \<lparr>size = vector_size self, distance = COSINE\<rparr> s1 = (r2, s2)"
        by (cases "create_collection cl (collection_name self)
          \<lparr>size = vector_size self, distance = COSINE\<rparr> s1")
      with g Inr False show ?thesis
        by (cases r2)
          (auto simp: ensure_collection_exists_def try_except_def
            ensure_collection_exists_body_def invoke_def print_simps ensure_payload_index_calls)
    qed
  qed
qed

lemma init_calls:
  "calls (snd (init cl environ w)) =
     calls (snd (ensure_collection_exists cl
                   \<lparr>collection_name = getenv environ ''COLLECTION_NAME'' ''rag_documents'',
                    vector_size = 768\<rparr> w))"
  by (simp add: init_def Let_def split: prod.splits sum.splits)

lemma init_creates_768:
  assumes "CreateCollection name params \<in> set (calls (snd (init cl environ w)))"
  shows "CreateCollection name params \<in> set (calls w) \<or> size params = 768"
  using assms ensure_collection_exists_calls [of cl
      "\<lparr>collection_name = getenv environ ''COLLECTION_NAME'' ''rag_documents'',
        vector_size = 768\<rparr>" w]
  unfolding init_calls by auto

text \<open>
  Claim C2, as amended. A failure of the collection listing, or of the collection creation
  when the collection is absent, aborts construction: the exception is raised to the
  caller. A failure of a payload-index creation never does: whenever the listing succeeds
  and the collection is present or its creation succeeds, the adapter is constructed,
  whatever the two index requests do. An exception of an index request is only printed,
  and not even that when its lower-cased text contains "already exists".
\<close>

theorem setup_failures:
  assumes "cn = getenv environ ''COLLECTION_NAME'' ''rag_documents''"
  shows "(fst (get_collections cl (service w)) = Inl e \<longrightarrow> fst (init cl environ w) = Inl e)
   \<and> (get_collections cl (service w) = (Inr names, s1) \<and> cn \<notin> set names
        \<and> fst (create_collection cl cn \<lparr>size = 768, distance = COSINE\<rparr> s1) = Inl e
      \<longrightarrow> fst (init cl environ w) = Inl e)
   \<and> (get_collections cl (service w) = (Inr names, s1)
        \<and> (cn \<in> set names
           \<or> fst (create_collection cl cn \<lparr>size = 768, distance = COSINE\<rparr> s1) = Inr ())
      \<longrightarrow> fst (init cl environ w) = Inr \<lparr>collection_name = cn, vector_size = 768\<rparr>)
   \<and> (fst (create_payload_index cl (collection_name self) field_name KEYWORD (service w')) = Inl e'
      \<longrightarrow> stdout (ensure_payload_index cl self field_name w') =
            stdout w' @ (if contains ''already exists'' (lower (str_exn e')) then []
                         else [str_exn e']))"
proof (intro conjI impI)
  assume "fst (get_collections cl (service w)) = Inl e"
  then show "fst (init cl environ w) = Inl e"
    by (auto simp: init_fst ensure_collection_exists_fst split: prod.splits)
next
  assume "get_collections cl (service w) = (Inr names, s1) \<and> cn \<notin> set names
        \<and> fst (create_collection cl cn \<lparr>size = 768, distance = COSINE\<rparr> s1) = Inl e"
  then show "fst (init cl environ w) = Inl e"
    using assms by (auto simp: init_fst ensure_collection_exists_fst split: prod.splits)
next
  assume "get_collections cl (service w) = (Inr names, s1)
        \<and> (cn \<in> set names
           \<or> fst (create_collection cl cn \<lparr>size = 768, distance = COSINE\<rparr> s1) = Inr ())"
  then show "fst (init cl environ w) = Inr \<lparr>collection_name = cn, vector_size = 768\<rparr>"
    using assms by (auto simp: init_fst ensure_collection_exists_fst split: prod.splits sum.splits)
next
  assume "fst (create_payload_index cl (collection_name self) field_name KEYWORD (service w')) = Inl e'"
  then show "stdout (ensure_payload_index cl self field_name w') =
            stdout w' @ (if contains ''already exists'' (lower (str_exn e')) then []
                         else [str_exn e'])"
    by (rule ensure_payload_index_stdout)
qed

text \<open>
  Both index requests fail with a message that does not mention "already exists": the
  adapter is constructed all the same, and the message is printed twice.
\<close>

theorem setup_index_failure_counterexample:
  "fst (init (index_failing_client ''boom'') Map.empty world0) = Inr adapter0
   \<and> stdout (snd (init (index_failing_client ''boom'') Map.empty world0)) = [''boom'', ''boom'']"
  by (simp add: init_def Let_def getenv_def ensure_collection_exists_def try_except_def
      ensure_collection_exists_body_def ensure_payload_index_def invoke_def print_def
      index_failing_client_def stub_client_def world0_def adapter0_def lower_def lower_char_def)

subsection \<open>Vector lengths\<close>

text \<open>
  Claim C3, as amended. The adapter is constructed with vector size 768 and every
  collection it creates is created with that size. \<open>add_documents\<close> does not compare an
  embedding with it: the vectors of the points it sends are the non-empty embeddings of the
  pairs, unchanged and in order, so every vector sent has the configured length when (and
  only when) every non-empty embedding supplied has it.
\<close>

theorem add_documents_vectors_as_supplied:
  "(fst (init cl0 environ w0) = Inr self0 \<longrightarrow> vector_size self0 = 768)
   \<and> (\<forall>name params.
         CreateCollection name params \<in> set (calls (snd (init cl0 environ w0)))
         \<longrightarrow> CreateCollection name params \<in> set (calls w0) \<or> size params = 768)
   \<and> (\<exists>points.
        calls (snd (add_documents cl self uuid4 documents embeddings w)) =
          calls w @ (if points = [] then [] else [Upsert (collection_name self) points])
      \<and> map vector points = filter (\<lambda>e. e \<noteq> []) (map snd (zip documents embeddings))
      \<and> ((\<forall>p\<in>set points. length (vector p) = vector_size self)
         \<longleftrightarrow> (\<forall>e\<in>set (map snd (zip documents embeddings)).
                e \<noteq> [] \<longrightarrow> length e = vector_size self)))"
proof -
  let ?pts = "points_built uuid4 (drawn w) documents embeddings"
  have empty: "?pts = [] \<longleftrightarrow> valid_positions documents embeddings = []"
    using length_points_built [of uuid4 "drawn w" documents embeddings]
    by (metis length_0_conv)
  have c: "calls (snd (add_documents cl self uuid4 documents embeddings w)) =
          calls w @ (if ?pts = [] then [] else [Upsert (collection_name self) ?pts])"
    by (simp add: add_documents_calls empty)
  have v: "map vector ?pts = filter (\<lambda>e. e \<noteq> []) (map snd (zip documents embeddings))"
    by (simp only: points_built_vectors valid_positions_vectors)
  have i: "fst (init cl0 environ w0) = Inr self0 \<longrightarrow> vector_size self0 = 768"
    by (auto simp: init_fst split: sum.splits)
  have k: "\<forall>name params.
         CreateCollection name params \<in> set (calls (snd (init cl0 environ w0)))
         \<longrightarrow> CreateCollection name params \<in> set (calls w0) \<or> size params = 768"
    using init_creates_768 by blast
  have "(\<forall>p\<in>set ?pts. length (vector p) = vector_size self)
      \<longleftrightarrow> (\<forall>x\<in>set (map vector ?pts). length x = vector_size self)"
    by simp
  also have "\<dots> \<longleftrightarrow> (\<forall>e\<in>set (map snd (zip documents embeddings)).
                e \<noteq> [] \<longrightarrow> length e = vector_size self)"
    unfolding v by auto
  finally have l: "(\<forall>p\<in>set ?pts. length (vector p) = vector_size self)
         \<longleftrightarrow> (\<forall>e\<in>set (map snd (zip documents embeddings)).
                e \<noteq> [] \<longrightarrow> length e = vector_size self)" .
  have x: "\<exists>points.
        calls (snd (add_documents cl self uuid4 documents embeddings w)) =
          calls w @ (if points = [] then [] else [Upsert (collection_name self) points])
      \<and> map vector points = filter (\<lambda>e. e \<noteq> []) (map snd (zip documents embeddings))
      \<and> ((\<forall>p\<in>set points. length (vector p) = vector_size self)
         \<longleftrightarrow> (\<forall>e\<in>set (map snd (zip documents embeddings)).
                e \<noteq> [] \<longrightarrow> length e = vector_size self))"
    by (rule exI [of _ ?pts]) (rule conjI [OF c conjI [OF v l]])
  show ?thesis
    by (rule conjI [OF i conjI [OF k x]])
qed

text \<open>
  An embedding of length 3 on an adapter configured for 768: a point with a vector of
  length 3 is sent to the service.
\<close>

theorem add_documents_vector_length_counterexample:
  "map (length \<circ> vector)
     (upserted (calls (snd (add_documents (stub_client [] []) adapter0 test_uuid4
        [doc_a] [[1, 2, 3]] world0)))) = [3]
   \<and> vector_size adapter0 = 768"
  by (simp add: add_documents_def try_except_def add_documents_body_def invoke_def print_def
      stub_client_def adapter0_def world0_def enumerate_eq_zip point_of_def)

text \<open>
  The listing fails; the collection is absent and its creation fails; both index requests
  fail, once with an "already exists" message and once with another.
\<close>

theorem setup_failures_witness:
  "fst (init (failing_client ''down'') Map.empty world0) = Inl (ServiceError ''down'')
   \<and> fst (init (creation_failing_client ''quota'') Map.empty world0) = Inl (ServiceError ''quota'')
   \<and> fst (init (index_failing_client ''Index Already Exists'') Map.empty world0) = Inr adapter0
   \<and> stdout (ensure_payload_index (index_failing_client ''Index Already Exists'') adapter0
        ''session_id'' world0) = []
   \<and> stdout (ensure_payload_index (index_failing_client ''timeout'') adapter0
        ''session_id'' world0) = [''timeout'']"
proof -
  have cn: "''rag_documents'' = getenv Map.empty ''COLLECTION_NAME'' ''rag_documents''"
    by (simp add: getenv_def)
  have a: "fst (init (failing_client ''down'') Map.empty world0) = Inl (ServiceError ''down'')"
    using setup_failures [OF cn, of "failing_client ''down''" world0
      "ServiceError ''down''" "[]" "()" adapter0 "''session_id''" world0 "ServiceError ''down''"]
    by (simp add: failing_client_def)
  have b: "fst (init (creation_failing_client ''quota'') Map.empty world0)
      = Inl (ServiceError ''quota'')"
    using setup_failures [OF cn, of "creation_failing_client ''quota''" world0
      "ServiceError ''quota''" "[]" "()" adapter0 "''session_id''" world0 "ServiceError ''quota''"]
    by (simp add: creation_failing_client_def stub_client_def)
  have c: "fst (init (index_failing_client ''Index Already Exists'') Map.empty world0)
        = Inr adapter0
      \<and> stdout (ensure_payload_index (index_failing_client ''Index Already Exists'') adapter0
        ''session_id'' world0) = []"
    using setup_failures [OF cn, of "index_failing_client ''Index Already Exists''" world0
      "ServiceError ''Index Already Exists''" "[''rag_documents'']" "()" adapter0
      "''session_id''" world0 "ServiceError ''Index Already Exists''"]
    by (simp add: index_failing_client_def stub_client_def world0_def adapter0_def
        lower_def lower_char_def)
  have d: "stdout (ensure_payload_index (index_failing_client ''timeout'') adapter0
        ''session_id'' world0) = [''timeout'']"
    using setup_failures [OF cn, of "index_failing_client ''timeout''" world0
      "ServiceError ''timeout''" "[''rag_documents'']" "()" adapter0 "''session_id''"
      world0 "ServiceError ''timeout''"]
    by (simp add: index_failing_client_def stub_client_def world0_def adapter0_def
        lower_def lower_char_def)
  from a b c d show ?thesis by simp
qed

text \<open>
  On a service without collections the collection is created with size 768. An embedding
  of the configured length and an empty one: one point is sent, with that embedding as its
  vector.
\<close>

theorem add_documents_vectors_as_supplied_witness:
  "fst (init (stub_client [] []) Map.empty world0) = Inr adapter0
   \<and> vector_size adapter0 = 768
   \<and> calls (snd (init fresh_service_client Map.empty world0)) =
        [GetCollections,
         CreateCollection ''rag_documents'' \<lparr>size = 768, distance = COSINE\<rparr>,
         CreatePayloadIndex ''rag_documents'' ''session_id'' KEYWORD,
         CreatePayloadIndex ''rag_documents'' ''source_type'' KEYWORD]
   \<and> (\<exists>points.
        calls (snd (add_documents (stub_client [] []) adapter0 test_uuid4
                      [doc_a, doc_b] [full_embedding, []] world0)) =
          [Upsert ''rag_documents'' points]
      \<and> map vector points = [full_embedding]
      \<and> map (length \<circ> vector) points = [768])"
proof -
  have i: "fst (init (stub_client [] []) Map.empty world0) = Inr adapter0"
    by (simp add: init_def Let_def getenv_def ensure_collection_exists_def try_except_def
      ensure_collection_exists_body_def ensure_payload_index_def invoke_def print_def
      stub_client_def world0_def adapter0_def)
  have fl: "length full_embedding = 768"
    by (simp only: full_embedding_def length_replicate)
  then have r: "full_embedding \<noteq> []" by auto
  note t = add_documents_vectors_as_supplied [of "stub_client [] []" Map.empty world0 adapter0
      "stub_client [] []" adapter0 test_uuid4 "[doc_a, doc_b]" "[full_embedding, []]" world0]
  from conjunct1 [OF t] i have v: "vector_size adapter0 = 768" by simp
  have k: "calls (snd (init fresh_service_client Map.empty world0)) =
        [GetCollections,
         CreateCollection ''rag_documents'' \<lparr>size = 768, distance = COSINE\<rparr>,
         CreatePayloadIndex ''rag_documents'' ''session_id'' KEYWORD,
         CreatePayloadIndex ''rag_documents'' ''source_type'' KEYWORD]"
    by (simp add: init_def Let_def getenv_def ensure_collection_exists_def try_except_def
      ensure_collection_exists_body_def ensure_payload_index_def invoke_def print_def
      fresh_service_client_def stub_client_def world0_def)
  from conjunct2 [OF conjunct2 [OF t]] obtain points where
    c: "calls (snd (add_documents (stub_client [] []) adapter0 test_uuid4
                      [doc_a, doc_b] [full_embedding, []] world0)) =
          calls world0 @ (if points = [] then [] else [Upsert (collection_name adapter0) points])"
    and m: "map vector points =
        filter (\<lambda>e. e \<noteq> []) (map snd (zip [doc_a, doc_b] [full_embedding, []]))"
    and l: "(\<forall>p\<in>set points. length (vector p) = vector_size adapter0)
         \<longleftrightarrow> (\<forall>e\<in>set (map snd (zip [doc_a, doc_b] [full_embedding, []])).
                e \<noteq> [] \<longrightarrow> length e = vector_size adapter0)"
    by (elim exE conjE) (rule that)
  from m r have m': "map vector points = [full_embedding]" by simp
  then have ne: "points \<noteq> []" by auto
  from l v fl have "\<forall>p\<in>set points. length (vector p) = 768" by simp
  moreover from m' obtain p0 where "points = [p0]" by auto
  ultimately have l': "map (length \<circ> vector) points = [768]" by simp
  from c ne have c': "calls (snd (add_documents (stub_client [] []) adapter0 test_uuid4
                      [doc_a, doc_b] [full_embedding, []] world0)) =
          [Upsert ''rag_documents'' points]"
    by (simp add: world0_def adapter0_def)
  show ?thesis
  proof (intro conjI exI [of _ points])
    show "fst (init (stub_client [] []) Map.empty world0) = Inr adapter0" by (rule i)
    show "vector_size adapter0 = 768" by (rule v)
    show "calls (snd (init fresh_service_client Map.empty world0)) =
        [GetCollections,
         CreateCollection ''rag_documents'' \<lparr>size = 768, distance = COSINE\<rparr>,
         CreatePayloadIndex ''rag_documents'' ''session_id'' KEYWORD,
         CreatePayloadIndex ''rag_documents'' ''source_type'' KEYWORD]" by (rule k)
    show "calls (snd (add_documents (stub_client [] []) adapter0 test_uuid4
                      [doc_a, doc_b] [full_embedding, []] world0)) =
          [Upsert ''rag_documents'' points]" by (rule c')
    show "map vector points = [full_embedding]" by (rule m')
    show "map (length \<circ> vector) points = [768]" by (rule l')
  qed
qed

end
